theory Spec2Isabelle
  imports Main "HOL-Library.Sublist"
begin

section \<open>JavaScript values, exceptions and promises\<close>

text \<open>
  The plugin is TypeScript running on a single-threaded event loop. Strings are modelled by
  \<^typ>\<open>string\<close>, holding the UTF-8 bytes of the JavaScript text: the code only concatenates
  strings, joins them and tests them for emptiness, and all three agree with the byte encoding.

  Anything can be thrown. The program reads a thrown value in two places only: the \<open>catch\<close>
  blocks take its text, and the loop of \<open>execute\<close> prints the reason of a rejected task in a
  template literal. A thrown value is an \<open>Error\<close> instance (its \<open>name\<close> and its \<open>message\<close>, both
  strings, printed by the built-in \<open>toString\<close>), or a symbol (its description), which \<open>String\<close>
  converts but a template literal refuses with a \<open>TypeError\<close>, or another value that converts
  to a string (only the result of the conversion is ever read), or another value whose
  conversion to a string itself throws: an object without a prototype, for which the
  conversion throws a \<open>TypeError\<close>, or an object whose \<open>toString\<close> throws. \<open>Unprintable e\<close> is
  such a value, \<open>e\<close> being what the conversion throws.
\<close>

datatype js_exn =
    ErrorInst string string
  | SymbolValue string
  | Thrown string
  | Unprintable js_exn

text \<open>An evaluation either throws or returns a value.\<close>

datatype 'a call = Throws js_exn | Returns 'a

text \<open>\<^verbatim>\<open>err instanceof Error ? err.message : String(err)\<close>\<close>

fun error_text :: "js_exn \<Rightarrow> string call" where
  "error_text (ErrorInst nm msg) = Returns msg"
| "error_text (SymbolValue descr) = Returns (''Symbol('' @ descr @ '')'')"
| "error_text (Thrown s) = Returns s"
| "error_text (Unprintable e) = Throws e"

text \<open>The conversion of a template literal, \<^verbatim>\<open>`${reason}`\<close>; for an \<open>Error\<close> instance this is
  \<open>Error.prototype.toString\<close>.\<close>

fun js_String :: "js_exn \<Rightarrow> string call" where
  "js_String (ErrorInst nm msg) =
     Returns (if nm = [] then msg else if msg = [] then nm else nm @ '': '' @ msg)"
| "js_String (SymbolValue descr) =
     Throws (ErrorInst ''TypeError'' ''Cannot convert a Symbol value to a string'')"
| "js_String (Thrown s) = Returns s"
| "js_String (Unprintable e) = Throws e"

text \<open>
  A promise is described by how it settles: fulfilled with a value or rejected with a reason at
  a time, or pending for ever. Times are milliseconds on an ideal clock that starts when the
  queries are launched: a timer fires exactly when its delay has elapsed (the real loop fires
  it no earlier), and time \<open>0\<close> is a promise that is already settled when it is handed over.
  A call of a function that is typed to return a promise either throws synchronously or
  returns the promise.
\<close>

datatype 'a promise = Fulfilled nat 'a | Rejected nat js_exn | Pending

fun settle_time :: "'a promise \<Rightarrow> nat option" where
  "settle_time (Fulfilled d v) = Some d"
| "settle_time (Rejected d e) = Some d"
| "settle_time Pending = None"

text \<open>
  \<^verbatim>\<open>Promise.race([p, q])\<close> settles as the first of its two inputs to settle. When both settle at
  the same time the first element of the array is taken: it is the one subscribed first, which
  decides the race between two promises that are already settled.
\<close>

definition race :: "'a promise \<Rightarrow> 'a promise \<Rightarrow> 'a promise" where
  "race p q =
     (case settle_time p of
        None \<Rightarrow> q
      | Some d \<Rightarrow> (case settle_time q of None \<Rightarrow> p | Some d' \<Rightarrow> if d \<le> d' then p else q))"

text \<open>
  The delay that \<open>setTimeout\<close> really waits for a requested delay of a whole number of
  milliseconds: a delay below 1 or above \<open>2^31 - 1\<close> is set to 1.
\<close>

definition set_delay :: "nat \<Rightarrow> nat" where
  "set_delay ms = (if ms < 1 \<or> 2147483647 < ms then 1 else ms)"

text \<open>\<^verbatim>\<open>new Promise((resolve) => setTimeout(() => resolve(v), ms))\<close>\<close>

definition timer :: "nat \<Rightarrow> 'a \<Rightarrow> 'a promise" where
  "timer ms v = Fulfilled (set_delay ms) v"

text \<open>The result of \<^verbatim>\<open>Promise.allSettled\<close> for one input promise.\<close>

datatype 'a settled = FulfilledS 'a | RejectedS js_exn

text \<open>
  \<^verbatim>\<open>Promise.allSettled(ps)\<close> is fulfilled once every input has settled, with one entry per input
  in the order of the input array; it stays pending while any input is pending, and it never
  rejects.
\<close>

fun allSettled :: "'a promise list \<Rightarrow> 'a settled list promise" where
  "allSettled [] = Fulfilled 0 []"
| "allSettled (p # ps) =
     (case allSettled ps of
        Fulfilled d' rs \<Rightarrow>
          (case p of
             Fulfilled d v \<Rightarrow> Fulfilled (max d d') (FulfilledS v # rs)
           | Rejected d e \<Rightarrow> Fulfilled (max d d') (RejectedS e # rs)
           | Pending \<Rightarrow> Pending)
      | Rejected d' e \<Rightarrow> Rejected d' e
      | Pending \<Rightarrow> Pending)"

text \<open>\<^verbatim>\<open>xs.join(sep)\<close>\<close>

fun join :: "string \<Rightarrow> string list \<Rightarrow> string" where
  "join sep [] = []"
| "join sep [x] = x"
| "join sep (x # y # ys) = x @ sep @ join sep (y # ys)"

subsection \<open>Numbers in template literals\<close>

text \<open>
  The decimal text of a non-negative whole number, as \<^verbatim>\<open>`${n}`\<close> prints it; it is used for
  the status of an HTTP response, a number of three digits.
\<close>

definition digit_char :: "nat \<Rightarrow> char" where
  "digit_char n = ''0123456789'' ! (n mod 10)"

function nat_str :: "nat \<Rightarrow> string" where
  "nat_str n = (if n < 10 then [digit_char n] else nat_str (n div 10) @ [digit_char n])"
  by pat_completeness auto
termination
  by (relation "measure (\<lambda>n. n)") auto

text \<open>
  \<^verbatim>\<open>`${timeoutMs / 1000}`\<close>. The quotient is a double, held in the model by its number of
  thousandths, and it is printed with the shortest decimal that reads back as the same
  double. Below \<open>10^15\<close> thousandths, where fifteen significant digits tell doubles apart, that
  decimal is the integer part followed, when the remainder is not zero, by a point and the
  three digits of the remainder without their trailing zeros. From there on the rounding of
  the double and the exponent notation show; that text is not modelled and is the parameter
  \<open>other\<close>.
\<close>

definition frac_digits :: "nat \<Rightarrow> string" where
  "frac_digits r =
     rev (dropWhile (\<lambda>c. c = CHR ''0'')
            (rev [digit_char (r div 100), digit_char (r div 10), digit_char r]))"

definition number_text :: "(nat \<Rightarrow> string) \<Rightarrow> nat \<Rightarrow> string" where
  "number_text other ths =
     (if ths < 1000000000000000 then
        (if ths mod 1000 = 0 then nat_str (ths div 1000)
         else nat_str (ths div 1000) @ ''.'' @ frac_digits (ths mod 1000))
      else other ths)"

section \<open>The translation table (\<open>lib/i18n.ts\<close>)\<close>

text \<open>
  The entries of the table that the orchestrator and the Copilot module read. The entry
  \<open>timeoutError\<close> takes a number of seconds, held by its number of thousandths, and prints it
  in its template; \<open>copilotApiError\<close> takes the text of the status it is given.
\<close>

datatype Language = Zh | ZhTw | En

record Translations =
  authError :: "string \<Rightarrow> string \<Rightarrow> string"
  timeoutError :: "nat \<Rightarrow> string"
  noAccounts :: string
  queryFailed :: string
  openaiTitle :: string
  zhipuTitle :: string
  zaiTitle :: string
  googleTitle :: string
  copilotTitle :: string
  copilotApiError :: "string \<Rightarrow> string \<Rightarrow> string"

definition translations_Zh :: "(nat \<Rightarrow> string) \<Rightarrow> Translations" where
  "translations_Zh other = \<lparr>
     authError = (\<lambda>path err. [CHR 0xE2, CHR 0x9D, CHR 0x8C] @ '' '' @ [CHR 0xE6,
         CHR 0x97, CHR 0xA0, CHR 0xE6, CHR 0xB3, CHR 0x95, CHR 0xE8, CHR 0xAF, CHR 0xBB,
         CHR 0xE5, CHR 0x8F, CHR 0x96, CHR 0xE8, CHR 0xAE, CHR 0xA4, CHR 0xE8, CHR 0xAF,
         CHR 0x81, CHR 0xE6, CHR 0x96, CHR 0x87, CHR 0xE4, CHR 0xBB, CHR 0xB6] @ '': '' @
         path @ ''\<newline>'' @ [CHR 0xE9, CHR 0x94, CHR 0x99, CHR 0xE8, CHR 0xAF, CHR 0xAF] @
         '': '' @ err),
     timeoutError = (\<lambda>seconds. [CHR 0xE8, CHR 0xAF, CHR 0xB7, CHR 0xE6, CHR 0xB1,
         CHR 0x82, CHR 0xE8, CHR 0xB6, CHR 0x85, CHR 0xE6, CHR 0x97, CHR 0xB6] @ '' ('' @
         number_text other seconds @ [CHR 0xE7, CHR 0xA7, CHR 0x92] @ '')''),
     noAccounts = [CHR 0xE6, CHR 0x9C, CHR 0xAA, CHR 0xE6, CHR 0x89, CHR 0xBE, CHR 0xE5,
         CHR 0x88, CHR 0xB0, CHR 0xE4, CHR 0xBB, CHR 0xBB, CHR 0xE4, CHR 0xBD, CHR 0x95,
         CHR 0xE5, CHR 0xB7, CHR 0xB2, CHR 0xE9, CHR 0x85, CHR 0x8D, CHR 0xE7, CHR 0xBD,
         CHR 0xAE, CHR 0xE7, CHR 0x9A, CHR 0x84, CHR 0xE8, CHR 0xB4, CHR 0xA6, CHR 0xE5,
         CHR 0x8F, CHR 0xB7, CHR 0xE3, CHR 0x80, CHR 0x82] @ ''\<newline>'' @ ''\<newline>'' @
         [CHR 0xE6, CHR 0x94, CHR 0xAF, CHR 0xE6, CHR 0x8C, CHR 0x81, CHR 0xE7, CHR 0x9A,
         CHR 0x84, CHR 0xE8, CHR 0xB4, CHR 0xA6, CHR 0xE5, CHR 0x8F, CHR 0xB7, CHR 0xE7,
         CHR 0xB1, CHR 0xBB, CHR 0xE5, CHR 0x9E, CHR 0x8B] @ '':\<newline>'' @
         ''- OpenAI (Plus/Team/Pro '' @ [CHR 0xE8, CHR 0xAE, CHR 0xA2, CHR 0xE9, CHR 0x98,
         CHR 0x85, CHR 0xE7, CHR 0x94, CHR 0xA8, CHR 0xE6, CHR 0x88, CHR 0xB7] @
         '')\<newline>'' @ ''- '' @ [CHR 0xE6, CHR 0x99, CHR 0xBA, CHR 0xE8, CHR 0xB0,
         CHR 0xB1] @ '' AI (Coding Plan)\<newline>'' @ ''- Z.ai (Coding Plan)\<newline>'' @
         ''- Google Cloud (Antigravity)'',
     queryFailed = [CHR 0xE2, CHR 0x9D, CHR 0x8C] @ '' '' @ [CHR 0xE6, CHR 0x9F, CHR 0xA5,
         CHR 0xE8, CHR 0xAF, CHR 0xA2, CHR 0xE5, CHR 0xA4, CHR 0xB1, CHR 0xE8, CHR 0xB4,
         CHR 0xA5, CHR 0xE7, CHR 0x9A, CHR 0x84, CHR 0xE8, CHR 0xB4, CHR 0xA6, CHR 0xE5,
         CHR 0x8F, CHR 0xB7] @ '':\<newline>'',
     openaiTitle = ''## OpenAI '' @ [CHR 0xE8, CHR 0xB4, CHR 0xA6, CHR 0xE5, CHR 0x8F,
         CHR 0xB7, CHR 0xE9, CHR 0xA2, CHR 0x9D, CHR 0xE5, CHR 0xBA, CHR 0xA6],
     zhipuTitle = ''## '' @ [CHR 0xE6, CHR 0x99, CHR 0xBA, CHR 0xE8, CHR 0xB0, CHR 0xB1] @
         '' AI '' @ [CHR 0xE8, CHR 0xB4, CHR 0xA6, CHR 0xE5, CHR 0x8F, CHR 0xB7, CHR 0xE9,
         CHR 0xA2, CHR 0x9D, CHR 0xE5, CHR 0xBA, CHR 0xA6],
     zaiTitle = ''## Z.ai '' @ [CHR 0xE8, CHR 0xB4, CHR 0xA6, CHR 0xE5, CHR 0x8F, CHR 0xB7,
         CHR 0xE9, CHR 0xA2, CHR 0x9D, CHR 0xE5, CHR 0xBA, CHR 0xA6],
     googleTitle = ''## Google Cloud '' @ [CHR 0xE8, CHR 0xB4, CHR 0xA6, CHR 0xE5, CHR 0x8F,
         CHR 0xB7, CHR 0xE9, CHR 0xA2, CHR 0x9D, CHR 0xE5, CHR 0xBA, CHR 0xA6],
     copilotTitle = ''## GitHub Copilot '' @ [CHR 0xE8, CHR 0xB4, CHR 0xA6, CHR 0xE5, CHR 0x8F,
         CHR 0xB7, CHR 0xE9, CHR 0xA2, CHR 0x9D, CHR 0xE5, CHR 0xBA, CHR 0xA6],
     copilotApiError = (\<lambda>status text. ''GitHub Copilot API '' @ [CHR 0xE8, CHR 0xAF,
         CHR 0xB7, CHR 0xE6, CHR 0xB1, CHR 0x82, CHR 0xE5, CHR 0xA4, CHR 0xB1, CHR 0xE8,
         CHR 0xB4, CHR 0xA5] @ '' ('' @ status @ ''): '' @ text) \<rparr>"

definition translations_ZhTw :: "(nat \<Rightarrow> string) \<Rightarrow> Translations" where
  "translations_ZhTw other = \<lparr>
     authError = (\<lambda>path err. [CHR 0xE2, CHR 0x9D, CHR 0x8C] @ '' '' @ [CHR 0xE7,
         CHR 0x84, CHR 0xA1, CHR 0xE6, CHR 0xB3, CHR 0x95, CHR 0xE8, CHR 0xAE, CHR 0x80,
         CHR 0xE5, CHR 0x8F, CHR 0x96, CHR 0xE8, CHR 0xAA, CHR 0x8D, CHR 0xE8, CHR 0xAD,
         CHR 0x89, CHR 0xE6, CHR 0xAA, CHR 0x94, CHR 0xE6, CHR 0xA1, CHR 0x88] @ '': '' @
         path @ ''\<newline>'' @ [CHR 0xE9, CHR 0x8C, CHR 0xAF, CHR 0xE8, CHR 0xAA, CHR 0xA4] @
         '': '' @ err),
     timeoutError = (\<lambda>seconds. [CHR 0xE8, CHR 0xAB, CHR 0x8B, CHR 0xE6, CHR 0xB1,
         CHR 0x82, CHR 0xE9, CHR 0x80, CHR 0xBE, CHR 0xE6, CHR 0x99, CHR 0x82] @ '' ('' @
         number_text other seconds @ [CHR 0xE7, CHR 0xA7, CHR 0x92] @ '')''),
     noAccounts = [CHR 0xE6, CHR 0x9C, CHR 0xAA, CHR 0xE6, CHR 0x89, CHR 0xBE, CHR 0xE5,
         CHR 0x88, CHR 0xB0, CHR 0xE4, CHR 0xBB, CHR 0xBB, CHR 0xE4, CHR 0xBD, CHR 0x95,
         CHR 0xE5, CHR 0xB7, CHR 0xB2, CHR 0xE8, CHR 0xA8, CHR 0xAD, CHR 0xE5, CHR 0xAE,
         CHR 0x9A, CHR 0xE7, CHR 0x9A, CHR 0x84, CHR 0xE5, CHR 0xB8, CHR 0xB3, CHR 0xE8,
         CHR 0x99, CHR 0x9F, CHR 0xE3, CHR 0x80, CHR 0x82] @ ''\<newline>'' @ ''\<newline>'' @
         [CHR 0xE6, CHR 0x94, CHR 0xAF, CHR 0xE6, CHR 0x8F, CHR 0xB4, CHR 0xE7, CHR 0x9A,
         CHR 0x84, CHR 0xE5, CHR 0xB8, CHR 0xB3, CHR 0xE8, CHR 0x99, CHR 0x9F, CHR 0xE9,
         CHR 0xA1, CHR 0x9E, CHR 0xE5, CHR 0x9E, CHR 0x8B] @ '':\<newline>'' @
         ''- OpenAI (Plus/Team/Pro '' @ [CHR 0xE8, CHR 0xA8, CHR 0x82, CHR 0xE9, CHR 0x96,
         CHR 0xB1, CHR 0xE7, CHR 0x94, CHR 0xA8, CHR 0xE6, CHR 0x88, CHR 0xB6] @
         '')\<newline>'' @ ''- '' @ [CHR 0xE6, CHR 0x99, CHR 0xBA, CHR 0xE8, CHR 0xAD,
         CHR 0x9C] @ '' AI (Coding Plan)\<newline>'' @ ''- Z.ai (Coding Plan)\<newline>'' @
         ''- Google Cloud (Antigravity)'',
     queryFailed = [CHR 0xE2, CHR 0x9D, CHR 0x8C] @ '' '' @ [CHR 0xE6, CHR 0x9F, CHR 0xA5,
         CHR 0xE8, CHR 0xA9, CHR 0xA2, CHR 0xE5, CHR 0xA4, CHR 0xB1, CHR 0xE6, CHR 0x95,
         CHR 0x97, CHR 0xE7, CHR 0x9A, CHR 0x84, CHR 0xE5, CHR 0xB8, CHR 0xB3, CHR 0xE8,
         CHR 0x99, CHR 0x9F] @ '':\<newline>'',
     openaiTitle = ''## OpenAI '' @ [CHR 0xE5, CHR 0xB8, CHR 0xB3, CHR 0xE8, CHR 0x99,
         CHR 0x9F, CHR 0xE9, CHR 0xA1, CHR 0x8D, CHR 0xE5, CHR 0xBA, CHR 0xA6],
     zhipuTitle = ''## '' @ [CHR 0xE6, CHR 0x99, CHR 0xBA, CHR 0xE8, CHR 0xAD, CHR 0x9C] @
         '' AI '' @ [CHR 0xE5, CHR 0xB8, CHR 0xB3, CHR 0xE8, CHR 0x99, CHR 0x9F, CHR 0xE9,
         CHR 0xA1, CHR 0x8D, CHR 0xE5, CHR 0xBA, CHR 0xA6],
     zaiTitle = ''## Z.ai '' @ [CHR 0xE5, CHR 0xB8, CHR 0xB3, CHR 0xE8, CHR 0x99, CHR 0x9F,
         CHR 0xE9, CHR 0xA1, CHR 0x8D, CHR 0xE5, CHR 0xBA, CHR 0xA6],
     googleTitle = ''## Google Cloud '' @ [CHR 0xE5, CHR 0xB8, CHR 0xB3, CHR 0xE8, CHR 0x99,
         CHR 0x9F, CHR 0xE9, CHR 0xA1, CHR 0x8D, CHR 0xE5, CHR 0xBA, CHR 0xA6],
     copilotTitle = ''## GitHub Copilot '' @ [CHR 0xE5, CHR 0xB8, CHR 0xB3, CHR 0xE8, CHR 0x99,
         CHR 0x9F, CHR 0xE9, CHR 0xA1, CHR 0x8D, CHR 0xE5, CHR 0xBA, CHR 0xA6],
     copilotApiError = (\<lambda>status text. ''GitHub Copilot API '' @ [CHR 0xE8, CHR 0xAB,
         CHR 0x8B, CHR 0xE6, CHR 0xB1, CHR 0x82, CHR 0xE5, CHR 0xA4, CHR 0xB1, CHR 0xE6,
         CHR 0x95, CHR 0x97] @ '' ('' @ status @ ''): '' @ text) \<rparr>"

definition translations_En :: "(nat \<Rightarrow> string) \<Rightarrow> Translations" where
  "translations_En other = \<lparr>
     authError = (\<lambda>path err. [CHR 0xE2, CHR 0x9D, CHR 0x8C] @
         '' Failed to read auth file: '' @ path @ ''\<newline>'' @ ''Error: '' @ err),
     timeoutError = (\<lambda>seconds. ''Request timeout ('' @ number_text other seconds @
         ''s)''),
     noAccounts = ''No configured accounts found.\<newline>'' @ ''\<newline>'' @
         ''Supported account types:\<newline>'' @
         ''- OpenAI (Plus/Team/Pro subscribers)\<newline>'' @
         ''- Zhipu AI (Coding Plan)\<newline>'' @ ''- Z.ai (Coding Plan)\<newline>'' @
         ''- Google Cloud (Antigravity)'',
     queryFailed = [CHR 0xE2, CHR 0x9D, CHR 0x8C] @ '' Failed to query accounts:\<newline>'',
     openaiTitle = ''## OpenAI Account Quota'',
     zhipuTitle = ''## Zhipu AI Account Quota'',
     zaiTitle = ''## Z.ai Account Quota'',
     googleTitle = ''## Google Cloud Account Quota'',
     copilotTitle = ''## GitHub Copilot Account Quota'',
     copilotApiError = (\<lambda>status text. ''GitHub Copilot API request failed ('' @
         status @ ''): '' @ text) \<rparr>"

text \<open>\<^verbatim>\<open>translations[currentLang]\<close>\<close>

fun translations_for :: "(nat \<Rightarrow> string) \<Rightarrow> Language \<Rightarrow> Translations" where
  "translations_for other Zh = translations_Zh other"
| "translations_for other ZhTw = translations_ZhTw other"
| "translations_for other En = translations_En other"

section \<open>Query results and the per-platform task (\<open>mystatus.ts\<close>)\<close>

text \<open>
  Modelled from the spec: the interface \<open>QueryResult\<close> of \<open>lib/types.ts\<close>, which is not among the
  sources. The code reads its fields \<open>success\<close>, \<open>output\<close> and \<open>error\<close> and builds it with
  \<open>success\<close> and one of the other two, so the two texts are optional (\<open>output\<close> is written \<open>output'\<close>). A query operation
  resolves to a \<open>QueryResult\<close> or to \<open>null\<close> (\<^const>\<open>None\<close>) when the account is not configured.
\<close>

record QueryResult =
  success :: bool
  output' :: "string option"
  error :: "string option"

text \<open>The timeout of a platform is a whole number of milliseconds.\<close>

record PlatformQuery =
  name :: string
  title :: string
  queryFn :: "QueryResult option promise call"
  timeoutMs :: nat

definition failure :: "string \<Rightarrow> QueryResult" where
  "failure msg = \<lparr>success = False, output' = None, error = Some msg\<rparr>"

definition tagged :: "string \<Rightarrow> string \<Rightarrow> string" where
  "tagged platformName msg = ''['' @ platformName @ ''] '' @ msg"

text \<open>
  \<open>queryWithTimeout\<close>: the call \<open>queryFn()\<close> is evaluated inside the \<open>try\<close> block, so a
  synchronous throw reaches the \<open>catch\<close> before any timer exists; otherwise the returned
  promise is raced against the timer and awaited, and a rejection reaches the same \<open>catch\<close>.
  The \<open>catch\<close> block takes the text of the error; when that throws, the function, being
  \<open>async\<close>, returns a rejected promise.
  The quotient \<^verbatim>\<open>timeoutMs / 1000\<close> that \<open>timeoutError\<close> is given is held by its number of
  thousandths, which is \<open>timeoutMs\<close>.
\<close>

definition queryWithTimeout ::
  "Translations \<Rightarrow> QueryResult option promise call \<Rightarrow> nat \<Rightarrow> string
     \<Rightarrow> QueryResult option promise" where
  "queryWithTimeout t qf ms platformName =
     (case qf of
        Throws err \<Rightarrow>
          (case error_text err of
             Returns txt \<Rightarrow> Fulfilled 0 (Some (failure (tagged platformName txt)))
           | Throws e \<Rightarrow> Rejected 0 e)
      | Returns p \<Rightarrow>
          (case race p (timer ms (Some (failure (tagged platformName (timeoutError t ms))))) of
             Fulfilled d result \<Rightarrow> Fulfilled d result
           | Rejected d err \<Rightarrow>
               (case error_text err of
                  Returns txt \<Rightarrow> Fulfilled d (Some (failure (tagged platformName txt)))
                | Throws e \<Rightarrow> Rejected d e)
           | Pending \<Rightarrow> Pending))"

text \<open>JavaScript truthiness of an optional string: \<open>undefined\<close> and \<open>""\<close> are falsy.\<close>

definition truthy :: "string option \<Rightarrow> bool" where
  "truthy s = (case s of None \<Rightarrow> False | Some x \<Rightarrow> x \<noteq> [])"

text \<open>The string held by an optional string; it is only read where the string is truthy.\<close>

definition text_of :: "string option \<Rightarrow> string" where
  "text_of s = (case s of None \<Rightarrow> [] | Some x \<Rightarrow> x)"

text \<open>
  \<open>collectResult\<close> pushes onto the two arrays it is given; the model returns both arrays.
\<close>

definition collectResult ::
  "QueryResult option \<Rightarrow> string \<Rightarrow> string list \<Rightarrow> string list
     \<Rightarrow> string list \<times> string list" where
  "collectResult result ttl results errors =
     (case result of
        None \<Rightarrow> (results, errors)
      | Some r \<Rightarrow>
          if success r \<and> truthy (output' r) then
            ((if results \<noteq> [] then results @ [[]] else results)
               @ [ttl, [], text_of (output' r)], errors)
          else if truthy (error r) then (results, errors @ [text_of (error r)])
          else (results, errors))"

section \<open>The orchestrator (\<open>MyStatusPlugin.execute\<close>)\<close>

text \<open>
  The body of the loop that turns the settled results into one result per platform: the
  value of a fulfilled task, and for a rejected one the failure made of the name of the
  platform and the reason printed in a template, which throws when the reason cannot be
  printed.
\<close>

definition settled_result ::
  "PlatformQuery \<Rightarrow> QueryResult option settled \<Rightarrow> QueryResult option call" where
  "settled_result platform settled =
     (case settled of
        FulfilledS v \<Rightarrow> Returns v
      | RejectedS reason \<Rightarrow>
          (case js_String reason of
             Returns s \<Rightarrow> Returns (Some (failure (tagged (name platform) s)))
           | Throws e \<Rightarrow> Throws e))"

text \<open>
  The loop itself, over the indices of \<open>platforms\<close>; \<open>Promise.allSettled\<close> gives as many
  settled results as there are platforms. An exception thrown in the body ends the loop, and
  with it \<open>execute\<close>.
\<close>

fun queryResults ::
  "PlatformQuery list \<Rightarrow> QueryResult option settled list
     \<Rightarrow> (PlatformQuery \<times> QueryResult option) list call" where
  "queryResults (platform # platforms) (settled # settledResults) =
     (case settled_result platform settled of
        Throws e \<Rightarrow> Throws e
      | Returns result \<Rightarrow>
          (case queryResults platforms settledResults of
             Throws e \<Rightarrow> Throws e
           | Returns rest \<Rightarrow> Returns ((platform, result) # rest)))"
| "queryResults platforms settledResults = Returns []"

text \<open>The loop over \<open>queryResults\<close> that calls \<open>collectResult\<close> on the two arrays.\<close>

fun collectLoop ::
  "(PlatformQuery \<times> QueryResult option) list \<Rightarrow> string list \<Rightarrow> string list
     \<Rightarrow> string list \<times> string list" where
  "collectLoop [] results errors = (results, errors)"
| "collectLoop ((platform, result) # rest) results errors =
     (case collectResult result (title platform) results errors of
        (results', errors') \<Rightarrow> collectLoop rest results' errors')"

text \<open>Step 4 of \<open>execute\<close>: the text returned for the two arrays.\<close>

definition summarize :: "Translations \<Rightarrow> string list \<Rightarrow> string list \<Rightarrow> string" where
  "summarize t outputResults errors =
     (if outputResults = [] \<and> errors = [] then noAccounts t
      else
        let out = join ''\<newline>'' outputResults in
        if errors \<noteq> [] then
          (if out \<noteq> [] then out @ ''\<newline>\<newline>'' else out)
            @ queryFailed t @ join ''\<newline>'' errors
        else out)"

text \<open>
  Steps 2 to 4 of \<open>execute\<close> for a list of platforms: every task is started, all of them are
  awaited with \<open>Promise.allSettled\<close>, and the results are merged and rendered. \<open>execute\<close> is
  \<open>async\<close>: an exception thrown in its loop rejects the promise it returned.
\<close>

definition tasks :: "Translations \<Rightarrow> PlatformQuery list \<Rightarrow> QueryResult option promise list" where
  "tasks t platforms = map (\<lambda>p. queryWithTimeout t (queryFn p) (timeoutMs p) (name p)) platforms"

definition run :: "Translations \<Rightarrow> PlatformQuery list \<Rightarrow> string promise" where
  "run t platforms =
     (case allSettled (tasks t platforms) of
        Fulfilled d settledResults \<Rightarrow>
          (case queryResults platforms settledResults of
             Throws e \<Rightarrow> Rejected d e
           | Returns results \<Rightarrow>
               (case collectLoop results [] [] of
                  (outputResults, errors) \<Rightarrow> Fulfilled d (summarize t outputResults errors)))
      | Rejected d e \<Rightarrow> Rejected d e
      | Pending \<Rightarrow> Pending)"

section \<open>The GitHub Copilot module (\<open>lib/copilot.ts\<close>)\<close>

text \<open>
  Modelled from the spec: the interface \<open>CopilotAuthData\<close> of \<open>lib/types.ts\<close>, which is not among
  the sources; \<open>queryCopilotUsage\<close> reads its fields \<open>type\<close> and \<open>refresh\<close>.
\<close>

record CopilotAuthData =
  type' :: string
  refresh :: "string option"

text \<open>
  What the code reads of a fetch \<open>Response\<close>: \<open>ok\<close>, \<open>status\<close>, and the promises returned by
  \<open>text()\<close> and \<open>json()\<close>; \<open>'u\<close> is the parsed body.
\<close>

record 'u Response =
  ok :: bool
  status :: nat
  text' :: "string promise"
  json :: "'u promise"

definition GITHUB_API_BASE_URL :: string where
  "GITHUB_API_BASE_URL = ''https://api.github.com''"

definition COPILOT_VERSION :: string where
  "COPILOT_VERSION = ''0.26.7''"

definition EDITOR_PLUGIN_VERSION :: string where
  "EDITOR_PLUGIN_VERSION = ''copilot-chat/'' @ COPILOT_VERSION"

definition USER_AGENT :: string where
  "USER_AGENT = ''GitHubCopilotChat/'' @ COPILOT_VERSION"

definition API_VERSION :: string where
  "API_VERSION = ''2025-04-01''"

definition buildGitHubHeaders :: "string \<Rightarrow> (string \<times> string) list" where
  "buildGitHubHeaders token =
     [(''content-type'', ''application/json''),
      (''accept'', ''application/json''),
      (''authorization'', ''token '' @ token),
      (''editor-version'', ''vscode/1.96.0''),
      (''editor-plugin-version'', EDITOR_PLUGIN_VERSION),
      (''user-agent'', USER_AGENT),
      (''x-github-api-version'', API_VERSION),
      (''x-vscode-user-agent-library-version'', ''electron-fetch'')]"

text \<open>A promise that is awaited from time \<open>d\<close> on resumes the function no earlier than \<open>d\<close>.\<close>

fun awaited_from :: "nat \<Rightarrow> 'a promise \<Rightarrow> 'a promise" where
  "awaited_from d (Fulfilled d' v) = Fulfilled (max d d') v"
| "awaited_from d (Rejected d' e) = Rejected (max d d') e"
| "awaited_from d Pending = Pending"

text \<open>
  \<open>fetchCopilotUsage\<close>. The helper \<open>fetchWithTimeout\<close> of \<open>lib/utils.ts\<close> is not among the
  sources and is a parameter: for a URL and headers it gives the promise of a response.
\<close>

definition fetchCopilotUsage ::
  "Translations \<Rightarrow> (string \<Rightarrow> (string \<times> string) list \<Rightarrow> 'u Response promise) \<Rightarrow> string
     \<Rightarrow> 'u promise" where
  "fetchCopilotUsage t fetchWithTimeout token =
     (case fetchWithTimeout (GITHUB_API_BASE_URL @ ''/copilot_internal/user'')
             (buildGitHubHeaders token) of
        Fulfilled d response \<Rightarrow>
          if \<not> ok response then
            (case awaited_from d (text' response) of
               Fulfilled d' errorText \<Rightarrow>
                 Rejected d'
                   (ErrorInst ''Error'' (copilotApiError t (nat_str (status response)) errorText))
             | Rejected d' e \<Rightarrow> Rejected d' e
             | Pending \<Rightarrow> Pending)
          else awaited_from d (json response)
      | Rejected d e \<Rightarrow> Rejected d e
      | Pending \<Rightarrow> Pending)"

text \<open>
  \<open>queryCopilotUsage\<close>. \<open>formatCopilotUsage\<close> reads the clock and calls \<open>createProgressBar\<close> of
  \<open>lib/utils.ts\<close>, which is not among the sources; it is a parameter that, for a parsed body,
  returns the rendered text or throws (as it does on a body without \<open>quota_snapshots\<close>). The
  \<open>catch\<close> block takes the text of the error as the one of \<open>queryWithTimeout\<close> does.
\<close>

definition queryCopilotUsage ::
  "Translations \<Rightarrow> (string \<Rightarrow> (string \<times> string) list \<Rightarrow> 'u Response promise)
     \<Rightarrow> ('u \<Rightarrow> string call) \<Rightarrow> CopilotAuthData option \<Rightarrow> QueryResult option promise" where
  "queryCopilotUsage t fetchWithTimeout formatCopilotUsage authData =
     (case authData of
        None \<Rightarrow> Fulfilled 0 None
      | Some a \<Rightarrow>
          if type' a \<noteq> ''oauth'' \<or> \<not> truthy (refresh a) then Fulfilled 0 None
          else
            (case fetchCopilotUsage t fetchWithTimeout (text_of (refresh a)) of
               Fulfilled d usage \<Rightarrow>
                 (case formatCopilotUsage usage of
                    Returns out \<Rightarrow>
                      Fulfilled d (Some \<lparr>success = True, output' = Some out, error = None\<rparr>)
                  | Throws err \<Rightarrow>
                      (case error_text err of
                         Returns txt \<Rightarrow> Fulfilled d (Some (failure txt))
                       | Throws e \<Rightarrow> Rejected d e))
             | Rejected d err \<Rightarrow>
                 (case error_text err of
                    Returns txt \<Rightarrow> Fulfilled d (Some (failure txt))
                  | Throws e \<Rightarrow> Rejected d e)
             | Pending \<Rightarrow> Pending))"

section \<open>The tool entry point\<close>

text \<open>
  Modelled from the spec: the interface \<open>AuthData\<close> of \<open>lib/types.ts\<close>, which is not among the
  sources; \<open>execute\<close> reads the four entries below. The records of the other platforms are
  opaque (\<open>'o\<close>, \<open>'z\<close>).
\<close>

record ('o, 'z) AuthData =
  openai :: "'o option"
  zhipuai_coding_plan :: "'z option"
  zai_coding_plan :: "'z option"
  github_copilot :: "CopilotAuthData option"

text \<open>
  The array \<open>platforms\<close> that \<open>execute\<close> builds from the parsed \<open>auth.json\<close>. \<open>JSON.parse\<close> gives
  whatever value the file holds: \<open>None\<close> is the value \<open>null\<close>, on which reading an entry throws
  a \<open>TypeError\<close> when the arrow function is called (\<open>nullRead\<close> gives the message of that
  error for the name of the entry, the text being the engine's); any other value that is not an object has none
  of the entries, like the record without entries. The constant \<open>REQUEST_TIMEOUT_MS\<close> of
  \<open>lib/types.ts\<close> and the query operations of the modules that are not among the sources are
  parameters.
\<close>

definition platforms ::
  "Translations \<Rightarrow> (string \<Rightarrow> string) \<Rightarrow> ('o, 'z) AuthData option \<Rightarrow> nat
     \<Rightarrow> ('o option \<Rightarrow> QueryResult option promise call)
     \<Rightarrow> ('z option \<Rightarrow> QueryResult option promise call)
     \<Rightarrow> ('z option \<Rightarrow> QueryResult option promise call)
     \<Rightarrow> QueryResult option promise call
     \<Rightarrow> (string \<Rightarrow> (string \<times> string) list \<Rightarrow> 'u Response promise)
     \<Rightarrow> ('u \<Rightarrow> string call)
     \<Rightarrow> PlatformQuery list" where
  "platforms t nullRead authData REQUEST_TIMEOUT_MS queryOpenAIUsage queryZhipuUsage
       queryZaiUsage queryGoogleUsage fetchWithTimeout formatCopilotUsage =
     [\<lparr>name = ''OpenAI'', title = openaiTitle t,
       queryFn =
         (case authData of
            None \<Rightarrow> Throws (ErrorInst ''TypeError'' (nullRead ''openai''))
          | Some a \<Rightarrow> queryOpenAIUsage (openai a)),
       timeoutMs = REQUEST_TIMEOUT_MS\<rparr>,
      \<lparr>name = ''ZhipuAI'', title = zhipuTitle t,
       queryFn =
         (case authData of
            None \<Rightarrow> Throws (ErrorInst ''TypeError'' (nullRead ''zhipuai-coding-plan''))
          | Some a \<Rightarrow> queryZhipuUsage (zhipuai_coding_plan a)),
       timeoutMs = REQUEST_TIMEOUT_MS\<rparr>,
      \<lparr>name = ''Z.ai'', title = zaiTitle t,
       queryFn =
         (case authData of
            None \<Rightarrow> Throws (ErrorInst ''TypeError'' (nullRead ''zai-coding-plan''))
          | Some a \<Rightarrow> queryZaiUsage (zai_coding_plan a)),
       timeoutMs = REQUEST_TIMEOUT_MS\<rparr>,
      \<lparr>name = ''Google'', title = googleTitle t,
       queryFn = queryGoogleUsage,
       timeoutMs = REQUEST_TIMEOUT_MS\<rparr>,
      \<lparr>name = ''Copilot'', title = copilotTitle t,
       queryFn =
         (case authData of
            None \<Rightarrow> Throws (ErrorInst ''TypeError'' (nullRead ''github-copilot''))
          | Some a \<Rightarrow>
              Returns (queryCopilotUsage t fetchWithTimeout formatCopilotUsage
                         (github_copilot a))),
       timeoutMs = REQUEST_TIMEOUT_MS\<rparr>]"


section \<open>Notions used to state the properties\<close>

text \<open>
  The task of a platform (the promise returned by \<open>queryWithTimeout\<close> for it), the time at
  which it settles, the settled result that \<open>Promise.allSettled\<close> gives for it (a task is
  never pending), and its outcome: the result that the loop of \<open>execute\<close> takes for it, or
  the exception that the loop throws on it. A platform is reportable when the loop takes a
  result for it.
\<close>

definition task :: "Translations \<Rightarrow> PlatformQuery \<Rightarrow> QueryResult option promise" where
  "task t p = queryWithTimeout t (queryFn p) (timeoutMs p) (name p)"

definition task_time :: "Translations \<Rightarrow> PlatformQuery \<Rightarrow> nat" where
  "task_time t p = (case task t p of Fulfilled d v \<Rightarrow> d | Rejected d e \<Rightarrow> d | Pending \<Rightarrow> 0)"

definition settled_task :: "Translations \<Rightarrow> PlatformQuery \<Rightarrow> QueryResult option settled" where
  "settled_task t p =
     (case task t p of
        Fulfilled d v \<Rightarrow> FulfilledS v
      | Rejected d e \<Rightarrow> RejectedS e
      | Pending \<Rightarrow> FulfilledS None)"

definition outcome :: "Translations \<Rightarrow> PlatformQuery \<Rightarrow> QueryResult option call" where
  "outcome t p = settled_result p (settled_task t p)"

definition reportable :: "Translations \<Rightarrow> PlatformQuery \<Rightarrow> bool" where
  "reportable t p = (case outcome t p of Returns v \<Rightarrow> True | Throws e \<Rightarrow> False)"

definition task_result :: "Translations \<Rightarrow> PlatformQuery \<Rightarrow> QueryResult option" where
  "task_result t p = (case outcome t p of Returns v \<Rightarrow> v | Throws e \<Rightarrow> None)"

text \<open>The exception that the loop of \<open>execute\<close> throws, if any: that of the first platform
  of the registry that is not reportable.\<close>

fun first_error :: "Translations \<Rightarrow> PlatformQuery list \<Rightarrow> js_exn option" where
  "first_error t [] = None"
| "first_error t (p # ps) =
     (case outcome t p of Throws e \<Rightarrow> Some e | Returns v \<Rightarrow> first_error t ps)"

fun latest :: "nat list \<Rightarrow> nat" where
  "latest [] = 0"
| "latest (d # ds) = max d (latest ds)"

text \<open>
  The two arrays \<open>outputResults\<close> and \<open>errors\<close> as they stand after step 3 of \<open>execute\<close>, when
  \<open>execute\<close> gets there.
\<close>

definition merged ::
  "Translations \<Rightarrow> PlatformQuery list \<Rightarrow> (string list \<times> string list) option" where
  "merged t ps =
     (case allSettled (tasks t ps) of
        Fulfilled d settledResults \<Rightarrow>
          (case queryResults ps settledResults of
             Throws e \<Rightarrow> None
           | Returns results \<Rightarrow> Some (collectLoop results [] []))
      | Rejected d e \<Rightarrow> None
      | Pending \<Rightarrow> None)"

text \<open>
  The merge step in the words of the specification: a platform contributes a success entry
  (its title and the body) when its outcome is a success with a body, the message of a failure
  otherwise, and nothing when it is absent. The success list and the error list take the
  contributions of the platforms in the order of the registry.
\<close>

definition success_entry :: "Translations \<Rightarrow> PlatformQuery \<Rightarrow> (string \<times> string) option" where
  "success_entry t p =
     (case task_result t p of
        None \<Rightarrow> None
      | Some r \<Rightarrow>
          if success r \<and> truthy (output' r) then Some (title p, text_of (output' r)) else None)"

definition error_entry :: "Translations \<Rightarrow> PlatformQuery \<Rightarrow> string option" where
  "error_entry t p =
     (case task_result t p of
        None \<Rightarrow> None
      | Some r \<Rightarrow>
          if \<not> (success r \<and> truthy (output' r)) \<and> truthy (error r)
          then Some (text_of (error r)) else None)"

definition success_list :: "Translations \<Rightarrow> PlatformQuery list \<Rightarrow> (string \<times> string) list" where
  "success_list t ps = List.map_filter (success_entry t) ps"

definition error_list :: "Translations \<Rightarrow> PlatformQuery list \<Rightarrow> string list" where
  "error_list t ps = List.map_filter (error_entry t) ps"

text \<open>The lines that the success entries occupy in \<open>outputResults\<close>.\<close>

fun entry_lines :: "(string \<times> string) list \<Rightarrow> string list" where
  "entry_lines [] = []"
| "entry_lines [(ttl, body)] = [ttl, [], body]"
| "entry_lines ((ttl, body) # e # es) = [ttl, [], body, []] @ entry_lines (e # es)"

text \<open>
  The report in the words of the specification. With success entries: the entries, each a
  title line, a blank line and the body, joined with a blank line between them; then, when
  there are errors, a blank line, the header line and one error message per line. Without
  success entries: the header line and one error message per line when there are errors,
  and the fixed message for no accounts otherwise. The header line is the text of
  \<open>queryFailed\<close> up to its line break.
\<close>

definition entry_block :: "string \<times> string \<Rightarrow> string" where
  "entry_block e = fst e @ ''\<newline>'' @ ''\<newline>'' @ snd e"

definition failures_header :: "Translations \<Rightarrow> string" where
  "failures_header t = takeWhile (\<lambda>c. c \<noteq> CHR ''\<newline>'') (queryFailed t)"

definition report_spec :: "Translations \<Rightarrow> (string \<times> string) list \<Rightarrow> string list \<Rightarrow> string" where
  "report_spec t successes errs =
     join ''\<newline>\<newline>'' (map entry_block successes)
       @ (if errs = [] then []
          else ''\<newline>\<newline>'' @ failures_header t @ ''\<newline>'' @ join ''\<newline>'' errs)"

definition report_text :: "Translations \<Rightarrow> (string \<times> string) list \<Rightarrow> string list \<Rightarrow> string" where
  "report_text t successes errs =
     (if successes \<noteq> [] then report_spec t successes errs
      else if errs \<noteq> [] then failures_header t @ ''\<newline>'' @ join ''\<newline>'' errs
      else noAccounts t)"

text \<open>
  A query operation that signals absence in time: it returns a promise that is fulfilled
  with \<open>null\<close> before the timer fires. One that does not answer within its budget: its promise
  is still pending when the timer fires.
\<close>

definition resolves_absent :: "PlatformQuery \<Rightarrow> bool" where
  "resolves_absent p =
     (case queryFn p of
        Returns (Fulfilled d None) \<Rightarrow> d < set_delay (timeoutMs p)
      | _ \<Rightarrow> False)"



section \<open>Every task settles, and so does the run\<close>

lemma task_not_pending: "task t p \<noteq> Pending"
  by (simp add: task_def queryWithTimeout_def race_def timer_def
      split: call.splits promise.splits option.splits)

lemma task_time_le: "task_time t p \<le> set_delay (timeoutMs p)"
  by (auto simp add: task_def task_time_def queryWithTimeout_def race_def timer_def
      split: call.splits promise.splits option.splits if_splits)

lemma tasks_map: "tasks t ps = map (task t) ps"
  by (simp add: tasks_def task_def)

lemma allSettled_task_Cons:
  "allSettled ps = Fulfilled d' rs \<Longrightarrow>
   allSettled (task t p # ps) = Fulfilled (max (task_time t p) d') (settled_task t p # rs)"
  using task_not_pending [of t p]
  by (cases "task t p") (simp_all add: task_time_def settled_task_def)

lemma allSettled_tasks:
  "allSettled (tasks t ps) =
     Fulfilled (latest (map (task_time t) ps)) (map (settled_task t) ps)"
  by (induction ps) (simp_all add: tasks_map allSettled_task_Cons del: allSettled.simps(2))

lemma queryResults_tasks:
  "queryResults ps (map (settled_task t) ps) =
     (case first_error t ps of
        Some e \<Rightarrow> Throws e
      | None \<Rightarrow> Returns (map (\<lambda>p. (p, task_result t p)) ps))"
  by (induction ps)
     (simp_all add: outcome_def [symmetric] task_result_def split: call.splits option.splits)

lemma first_error_None: "first_error t ps = None \<longleftrightarrow> (\<forall>p \<in> set ps. reportable t p)"
  by (induction ps) (auto simp add: reportable_def split: call.splits)

lemma first_error_append:
  "first_error t (xs @ ys) =
     (case first_error t xs of Some e \<Rightarrow> Some e | None \<Rightarrow> first_error t ys)"
  by (induction xs) (simp_all split: call.splits)

lemma first_error_skip:
  "reportable t p \<Longrightarrow> first_error t (xs @ p # ys) = first_error t (xs @ ys)"
  by (simp add: first_error_append reportable_def split: call.splits option.splits)

lemma latest_mono: "list_all2 (\<le>) ds bs \<Longrightarrow> latest ds \<le> latest bs"
  by (induction ds bs rule: list_all2_induct) auto

section \<open>The merge loop, as lists in registry order\<close>

lemma entry_lines_empty: "entry_lines S = [] \<longleftrightarrow> S = []"
  by (induction S rule: entry_lines.induct) simp_all

lemma entry_lines_snoc:
  "entry_lines (S @ [(ttl, body)]) =
     (if entry_lines S \<noteq> [] then entry_lines S @ [[]] else entry_lines S) @ [ttl, [], body]"
  by (induction S rule: entry_lines.induct) (simp_all add: entry_lines_empty)

lemma collectResult_entries:
  "collectResult (task_result t p) (title p) (entry_lines S) E =
     (entry_lines (S @ (case success_entry t p of None \<Rightarrow> [] | Some e \<Rightarrow> [e])),
      E @ (case error_entry t p of None \<Rightarrow> [] | Some m \<Rightarrow> [m]))"
  by (simp add: collectResult_def success_entry_def error_entry_def entry_lines_snoc
      split: option.splits)

lemma collectLoop_entries:
  "collectLoop (map (\<lambda>p. (p, task_result t p)) ps) (entry_lines S) E =
     (entry_lines (S @ success_list t ps), E @ error_list t ps)"
proof (induction ps arbitrary: S E)
  case Nil
  show ?case by (simp add: success_list_def error_list_def)
next
  case (Cons p ps)
  show ?case
    using Cons.IH [of "S @ (case success_entry t p of None \<Rightarrow> [] | Some e \<Rightarrow> [e])"
                      "E @ (case error_entry t p of None \<Rightarrow> [] | Some m \<Rightarrow> [m])"]
    by (simp add: collectResult_entries success_list_def error_list_def split: option.splits)
qed

lemma merged_lists:
  "merged t ps =
     (case first_error t ps of
        Some e \<Rightarrow> None
      | None \<Rightarrow> Some (entry_lines (success_list t ps), error_list t ps))"
  using collectLoop_entries [of t ps "[]" "[]"]
  by (simp add: merged_def allSettled_tasks queryResults_tasks split: option.splits)

lemma run_settles:
  "run t ps =
     (case first_error t ps of
        Some e \<Rightarrow> Rejected (latest (map (task_time t) ps)) e
      | None \<Rightarrow>
          Fulfilled (latest (map (task_time t) ps))
            (summarize t (entry_lines (success_list t ps)) (error_list t ps)))"
  using collectLoop_entries [of t ps "[]" "[]"]
  by (simp add: run_def allSettled_tasks queryResults_tasks split: option.splits)


lemma success_list_append:
  "success_list t (xs @ ys) = success_list t xs @ success_list t ys"
  by (simp add: success_list_def List.map_filter_def)

lemma error_list_append: "error_list t (xs @ ys) = error_list t xs @ error_list t ys"
  by (simp add: error_list_def List.map_filter_def)

lemma success_list_Cons:
  "success_list t (p # ps) =
     (case success_entry t p of None \<Rightarrow> [] | Some e \<Rightarrow> [e]) @ success_list t ps"
  by (simp add: success_list_def split: option.splits)

lemma error_list_Cons:
  "error_list t (p # ps) =
     (case error_entry t p of None \<Rightarrow> [] | Some m \<Rightarrow> [m]) @ error_list t ps"
  by (simp add: error_list_def split: option.splits)


section \<open>The text of the report\<close>

lemma join_Cons: "xs \<noteq> [] \<Longrightarrow> join sep (x # xs) = x @ sep @ join sep xs"
  by (cases xs) simp_all

lemma join_entry_lines:
  "join ''\<newline>'' (entry_lines S) = join ''\<newline>\<newline>'' (map entry_block S)"
  by (induction S rule: entry_lines.induct)
     (simp_all add: entry_block_def join_Cons entry_lines_empty)

lemma join_nonempty: "x \<noteq> [] \<Longrightarrow> join sep (x # xs) \<noteq> []"
  by (cases xs) simp_all

lemma join_blocks_nonempty: "S \<noteq> [] \<Longrightarrow> join sep (map entry_block S) \<noteq> []"
  by (cases S) (simp_all add: join_nonempty entry_block_def)

lemma summarize_report_text:
  assumes "queryFailed t = failures_header t @ ''\<newline>''"
  shows "summarize t (entry_lines S) E = report_text t S E"
proof -
  have "queryFailed t @ join ''\<newline>'' E = failures_header t @ ''\<newline>'' @ join ''\<newline>'' E"
    using assms by simp
  then show ?thesis
    by (simp add: summarize_def report_text_def report_spec_def entry_lines_empty
        join_entry_lines join_blocks_nonempty Let_def)
qed

lemma header_line:
  "queryFailed (translations_for other lang) =
     failures_header (translations_for other lang) @ ''\<newline>''"
  by (cases lang)
     (simp_all add: failures_header_def translations_Zh_def translations_ZhTw_def
       translations_En_def)

lemma header_no_break: "CHR ''\<newline>'' \<notin> set (failures_header t)"
  unfolding failures_header_def by (auto dest: set_takeWhileD)

lemma summarize_empty: "summarize t [] [] = noAccounts t"
  by (simp add: summarize_def)

section \<open>Outcomes of single tasks\<close>

lemma failure_inject: "failure a = failure b \<longleftrightarrow> a = b"
  by (simp add: failure_def)

lemma tagged_inject: "tagged n a = tagged n b \<longleftrightarrow> a = b"
  by (simp add: tagged_def)

lemma tagged_nonempty: "tagged n m \<noteq> []"
  by (simp add: tagged_def)

lemma outcome_fulfilled: "task t p = Fulfilled d v \<Longrightarrow> outcome t p = Returns v"
  by (simp add: outcome_def settled_task_def settled_result_def)


lemma fulfilled_reportable: "task t p = Fulfilled d v \<Longrightarrow> reportable t p \<and> task_result t p = v"
  by (simp add: reportable_def task_result_def outcome_fulfilled)

lemma error_entry_failure:
  "task_result t p = Some (failure m) \<Longrightarrow> m \<noteq> [] \<Longrightarrow> error_entry t p = Some m"
  by (simp add: error_entry_def failure_def truthy_def text_of_def)

lemma success_entry_failure:
  "task_result t p = Some (failure m) \<Longrightarrow> success_entry t p = None"
  by (simp add: success_entry_def failure_def)

lemma thrown_task:
  "queryFn p = Throws e \<Longrightarrow> error_text e = Returns txt \<Longrightarrow>
   task t p = Fulfilled 0 (Some (failure (tagged (name p) txt)))"
  by (simp add: task_def queryWithTimeout_def)


lemma fulfilled_task:
  "queryFn p = Returns (Fulfilled d v) \<Longrightarrow> d < set_delay (timeoutMs p) \<Longrightarrow>
   task t p = Fulfilled d v"
  by (simp add: task_def queryWithTimeout_def race_def timer_def)



lemma all_reportable_run:
  "(\<forall>q \<in> set ps. reportable t q) \<Longrightarrow>
   run t ps =
     Fulfilled (latest (map (task_time t) ps))
       (summarize t (entry_lines (success_list t ps)) (error_list t ps)) \<and>
   merged t ps = Some (entry_lines (success_list t ps), error_list t ps)"
  by (simp add: run_settles merged_lists first_error_None [symmetric])

lemma merged_Some:
  "merged t ps = Some (rs, es) \<longleftrightarrow>
   first_error t ps = None \<and> rs = entry_lines (success_list t ps) \<and> es = error_list t ps"
  by (auto simp add: merged_lists split: option.splits)

section \<open>Facts used by the properties\<close>






lemma entries_cong:
  "title p = title q \<Longrightarrow> outcome t p = outcome t q \<Longrightarrow>
   success_entry t p = success_entry t q \<and> error_entry t p = error_entry t q"
  by (simp add: success_entry_def error_entry_def task_result_def split: option.splits)

lemma lists_cong:
  assumes "map title ps = map title ps'" and "map (outcome t) ps = map (outcome t) ps'"
  shows "success_list t ps = success_list t ps' \<and> error_list t ps = error_list t ps' \<and>
   first_error t ps = first_error t ps'"
proof -
  from assms(1) have "length ps = length ps'"
    by (rule map_eq_imp_length_eq)
  then show ?thesis
    using assms
  proof (induction ps ps' rule: list_induct2)
    case Nil
    show ?case by simp
  next
    case (Cons p ps q qs)
    from Cons.prems have head: "title p = title q" "outcome t p = outcome t q"
      and rest: "map title ps = map title qs" "map (outcome t) ps = map (outcome t) qs"
      by simp_all
    note tail = Cons.IH [OF rest]
    note entries = entries_cong [OF head]
    have "success_list t (p # ps) = success_list t (q # qs)"
      unfolding success_list_Cons using entries tail by simp
    moreover have "error_list t (p # ps) = error_list t (q # qs)"
      unfolding error_list_Cons using entries tail by simp
    moreover have "first_error t (p # ps) = first_error t (q # qs)"
      using head(2) tail by (cases "outcome t q") simp_all
    ultimately show ?case by simp
  qed
qed

lemma success_titles: "subseq (map fst (success_list t ps)) (map title ps)"
proof (induction ps)
  case Nil
  show ?case by (simp add: success_list_def)
next
  case (Cons p ps)
  show ?case
  proof (cases "success_entry t p")
    case None
    with Cons show ?thesis by (auto simp add: success_list_Cons)
  next
    case (Some e)
    then have "fst e = title p"
      by (auto simp add: success_entry_def split: option.splits if_splits)
    with Some Cons show ?thesis by (simp add: success_list_Cons)
  qed
qed

lemma empty_failure_silent:
  "task_result t p = Some (failure []) \<Longrightarrow> success_entry t p = None \<and> error_entry t p = None"
  by (simp add: success_entry_def error_entry_def failure_def truthy_def)

lemma returned_failure:
  "queryFn p = Returns (Fulfilled d (Some (failure m))) \<Longrightarrow> d < set_delay (timeoutMs p) \<Longrightarrow>
   m \<noteq> [] \<Longrightarrow> success_list t [p] = [] \<and> error_list t [p] = [m]"
proof -
  assume "queryFn p = Returns (Fulfilled d (Some (failure m)))" and "d < set_delay (timeoutMs p)"
  then have "task t p = Fulfilled d (Some (failure m))"
    by (rule fulfilled_task)
  then have res: "task_result t p = Some (failure m)"
    by (simp add: fulfilled_reportable)
  assume "m \<noteq> []"
  with res show ?thesis
    by (simp add: success_list_def error_list_def success_entry_failure error_entry_failure)
qed

lemma absent_task: "resolves_absent p \<Longrightarrow> \<exists>d. task t p = Fulfilled d None"
  by (auto simp add: resolves_absent_def task_def queryWithTimeout_def race_def timer_def
      split: call.splits promise.splits option.splits)

lemma absent_task_result: "resolves_absent p \<Longrightarrow> reportable t p \<and> task_result t p = None"
  using absent_task [of p t] by (auto simp add: fulfilled_reportable)

lemma silent_entries:
  "task_result t p = None \<Longrightarrow> success_entry t p = None \<and> error_entry t p = None"
  by (simp add: success_entry_def error_entry_def)

lemma silent_dropped:
  assumes "reportable t p" and "success_entry t p = None" and "error_entry t p = None"
  shows "merged t (xs @ p # ys) = merged t (xs @ ys)"
    and "(\<exists>d. run t (xs @ p # ys) = Fulfilled d r) \<longleftrightarrow> (\<exists>d. run t (xs @ ys) = Fulfilled d r)"
proof -
  have lists: "success_list t (xs @ p # ys) = success_list t (xs @ ys)"
    "error_list t (xs @ p # ys) = error_list t (xs @ ys)"
    using assms(2,3)
    by (simp_all add: success_list_append error_list_append success_list_Cons error_list_Cons)
  have err: "first_error t (xs @ p # ys) = first_error t (xs @ ys)"
    using assms(1) by (rule first_error_skip)
  show "merged t (xs @ p # ys) = merged t (xs @ ys)"
    by (simp only: merged_lists lists err)
  show "(\<exists>d. run t (xs @ p # ys) = Fulfilled d r) \<longleftrightarrow> (\<exists>d. run t (xs @ ys) = Fulfilled d r)"
    by (cases "first_error t (xs @ ys)") (simp_all add: run_settles lists err)
qed

lemma all_silent:
  "(\<And>p. p \<in> set ps \<Longrightarrow> task_result t p = None) \<Longrightarrow>
   success_list t ps = [] \<and> error_list t ps = []"
proof (induction ps)
  case Nil
  show ?case by (simp add: success_list_def error_list_def)
next
  case (Cons p ps)
  then show ?case by (simp add: success_list_Cons error_list_Cons silent_entries)
qed

lemma copilot_absent:
  "a = None \<or> (\<exists>c. a = Some c \<and> (type' c \<noteq> ''oauth'' \<or> refresh c = None \<or> refresh c = Some []))
   \<Longrightarrow> queryCopilotUsage t fw fmt a = Fulfilled 0 None"
  by (auto simp add: queryCopilotUsage_def truthy_def)

lemma set_delay_pos: "0 < set_delay ms"
  by (simp add: set_delay_def)

lemma fulfilled_task_result:
  "queryFn p = Returns (Fulfilled d v) \<Longrightarrow> d < set_delay (timeoutMs p) \<Longrightarrow>
   reportable t p \<and> task_result t p = v"
  using fulfilled_task [of p d v t] by (simp add: fulfilled_reportable)

lemma thrown_outcome:
  "queryFn p = Throws e \<Longrightarrow> error_text e = Returns m \<Longrightarrow>
   reportable t p \<and> task_result t p = Some (failure (tagged (name p) m))"
  using thrown_task [of p e m t] by (simp add: fulfilled_reportable)

lemma thrown_isolated:
  assumes "queryFn p = Throws e" and "error_text e = Returns m"
    and "\<forall>q \<in> set (xs @ ys). reportable t q"
    and "queryFailed t = failures_header t @ ''\<newline>''"
  shows "merged t (xs @ p # ys) =
      Some (entry_lines (success_list t xs @ success_list t ys),
            error_list t xs @ tagged (name p) m # error_list t ys)"
    and "run t (xs @ p # ys) =
      Fulfilled (latest (map (task_time t) (xs @ p # ys)))
        (report_text t (success_list t xs @ success_list t ys)
           (error_list t xs @ tagged (name p) m # error_list t ys))"
proof -
  note res = thrown_outcome [OF assms(1,2), of t]
  from res have "success_entry t p = None"
    by (simp add: success_entry_failure)
  moreover from res have "error_entry t p = Some (tagged (name p) m)"
    by (simp add: error_entry_failure tagged_nonempty)
  ultimately have lists: "success_list t (xs @ p # ys) = success_list t xs @ success_list t ys"
    "error_list t (xs @ p # ys) = error_list t xs @ tagged (name p) m # error_list t ys"
    by (simp_all add: success_list_append error_list_append success_list_Cons error_list_Cons)
  from res assms(3) have all: "\<forall>q \<in> set (xs @ p # ys). reportable t q"
    by simp
  show "merged t (xs @ p # ys) =
      Some (entry_lines (success_list t xs @ success_list t ys),
            error_list t xs @ tagged (name p) m # error_list t ys)"
    using all_reportable_run [OF all] by (simp only: lists)
  show "run t (xs @ p # ys) =
      Fulfilled (latest (map (task_time t) (xs @ p # ys)))
        (report_text t (success_list t xs @ success_list t ys)
           (error_list t xs @ tagged (name p) m # error_list t ys))"
    using all_reportable_run [OF all]
    by (simp only: lists summarize_report_text [OF assms(4)])
qed







section \<open>The timeout wrapper\<close>

text \<open>
  Claim C9. When the query operation fulfils before the timer fires, \<open>queryWithTimeout\<close>
  resolves to exactly the value of the query operation, at the same time, and so also to
  \<open>null\<close> for an account that is not configured. The timer fires after the budget when the
  budget is between 1 and \<open>2^31 - 1\<close> milliseconds, and after one millisecond otherwise. The
  timeout failure comes out only when the timer wins the race (the promise of the query is
  pending when it fires), unless the query operation itself settles with that very text.
\<close>

theorem queryWithTimeout_passes_result:
  "(d < set_delay ms \<longrightarrow> queryWithTimeout t (Returns (Fulfilled d v)) ms n = Fulfilled d v) \<and>
   (d < set_delay ms \<longrightarrow>
      queryWithTimeout t (Returns (Fulfilled d None)) ms n = Fulfilled d None) \<and>
   (1 \<le> ms \<and> ms \<le> 2147483647 \<and> d < ms \<longrightarrow>
      queryWithTimeout t (Returns (Fulfilled d v)) ms n = Fulfilled d v) \<and>
   ((ms = 0 \<or> 2147483647 < ms) \<and> 1 < d \<longrightarrow>
      queryWithTimeout t (Returns (Fulfilled d v)) ms n =
        Fulfilled 1 (Some (failure (tagged n (timeoutError t ms))))) \<and>
   (queryWithTimeout t (Returns q) ms n =
      Fulfilled d' (Some (failure (tagged n (timeoutError t ms)))) \<longrightarrow>
    q = Fulfilled d' (Some (failure (tagged n (timeoutError t ms)))) \<or>
    (\<exists>e. q = Rejected d' e \<and> error_text e = Returns (timeoutError t ms)) \<or>
    (d' = set_delay ms \<and> (case settle_time q of None \<Rightarrow> True | Some x \<Rightarrow> set_delay ms < x)))"
proof -
  have passes: "queryWithTimeout t (Returns (Fulfilled d v)) ms n = Fulfilled d v"
    if "d < set_delay ms" for v
    using that by (simp add: queryWithTimeout_def race_def timer_def)
  have usual: "set_delay ms = ms" if "1 \<le> ms" and "ms \<le> 2147483647"
    using that by (simp add: set_delay_def)
  have clamped: "queryWithTimeout t (Returns (Fulfilled d v)) ms n =
      Fulfilled 1 (Some (failure (tagged n (timeoutError t ms))))"
    if "ms = 0 \<or> 2147483647 < ms" and "1 < d"
    using that by (auto simp add: queryWithTimeout_def race_def timer_def set_delay_def)
  have only: "q = Fulfilled d' (Some (failure (tagged n (timeoutError t ms)))) \<or>
      (\<exists>e. q = Rejected d' e \<and> error_text e = Returns (timeoutError t ms)) \<or>
      (d' = set_delay ms \<and> (case settle_time q of None \<Rightarrow> True | Some x \<Rightarrow> set_delay ms < x))"
    if "queryWithTimeout t (Returns q) ms n =
      Fulfilled d' (Some (failure (tagged n (timeoutError t ms))))"
    using that
    by (cases q)
       (auto simp add: queryWithTimeout_def race_def timer_def failure_inject tagged_inject
         split: if_splits call.splits)
  from passes usual clamped only show ?thesis by simp
qed

theorem queryWithTimeout_passes_result_witness:
  "queryWithTimeout (translations_En (\<lambda>n. []))
     (Returns (Fulfilled 5 (Some \<lparr>success = True, output' = Some ''X'', error = None\<rparr>)))
     2000 ''A''
     = Fulfilled 5 (Some \<lparr>success = True, output' = Some ''X'', error = None\<rparr>) \<and>
   queryWithTimeout (translations_En (\<lambda>n. [])) (Returns (Fulfilled 5 None)) 2000 ''A''
     = Fulfilled 5 None \<and>
   queryWithTimeout (translations_En (\<lambda>n. [])) (Returns (Fulfilled 2001 None)) 2000 ''A''
     = Fulfilled 2000 (Some (failure ''[A] Request timeout (2s)'')) \<and>
   queryWithTimeout (translations_En (\<lambda>n. [])) (Returns (Fulfilled 20 None)) 3000000000 ''A''
     = Fulfilled 1 (Some (failure ''[A] Request timeout (3000000s)''))"
proof -
  let ?t = "translations_En (\<lambda>n. [])"
  let ?X = "Some \<lparr>success = True, output' = Some ''X'', error = None\<rparr>"
  note passes = queryWithTimeout_passes_result
    [where d = 5 and ms = 2000 and t = ?t and n = "''A''" and v = ?X
       and q = "Fulfilled 2001 None" and d' = 2000]
  note clamped = queryWithTimeout_passes_result
    [where d = 20 and ms = 3000000000 and t = ?t and n = "''A''" and v = None
       and q = "Fulfilled 20 None" and d' = 1]
  have a: "queryWithTimeout ?t (Returns (Fulfilled 5 ?X)) 2000 ''A'' = Fulfilled 5 ?X"
    using passes by (simp add: set_delay_def)
  have b: "queryWithTimeout ?t (Returns (Fulfilled 5 None)) 2000 ''A'' = Fulfilled 5 None"
    using passes by (simp add: set_delay_def)
  have c: "queryWithTimeout ?t (Returns (Fulfilled 2001 None)) 2000 ''A''
      = Fulfilled 2000 (Some (failure ''[A] Request timeout (2s)''))"
    by (simp add: queryWithTimeout_def race_def timer_def set_delay_def tagged_def
        number_text_def digit_char_def translations_En_def)
  have d: "queryWithTimeout ?t (Returns (Fulfilled 20 None)) 3000000000 ''A''
      = Fulfilled 1 (Some (failure ''[A] Request timeout (3000000s)''))"
    using clamped
    by (simp add: tagged_def number_text_def digit_char_def translations_En_def)
  from a b c d show ?thesis by simp
qed

section \<open>Containment of failures\<close>




section \<open>Timeouts\<close>




section \<open>Order of the merged lists\<close>

text \<open>
  Claim C2 (as amended). The two arrays that the merge loop builds are the success entries
  and the error messages of the platforms taken in the order of the registry: the
  contributions of an earlier part of the registry come before those of a later part, and
  the titles of the success entries follow the order of the titles in the registry. A
  failure contributes its message when the message is not empty; a failure with the empty
  message contributes nothing. The times at which the tasks complete play no part: two runs
  whose platforms have the same titles and the same outcomes, completed in whatever order,
  produce the same arrays and the same report.
\<close>

theorem merge_in_registry_order:
  "(merged t ps = Some (rs, es) \<longrightarrow>
      rs = entry_lines (success_list t ps) \<and> es = error_list t ps \<and>
      run t ps = Fulfilled (latest (map (task_time t) ps)) (summarize t rs es)) \<and>
   success_list t (xs @ ys) = success_list t xs @ success_list t ys \<and>
   error_list t (xs @ ys) = error_list t xs @ error_list t ys \<and>
   subseq (map fst (success_list t ps)) (map title ps) \<and>
   (task_result t p = Some (failure m) \<and> m \<noteq> [] \<longrightarrow>
      success_list t [p] = [] \<and> error_list t [p] = [m]) \<and>
   (task_result t p = Some (failure []) \<longrightarrow>
      success_list t [p] = [] \<and> error_list t [p] = []) \<and>
   (map title ps = map title ps' \<and> map (outcome t) ps = map (outcome t) ps' \<longrightarrow>
      merged t ps = merged t ps' \<and>
      (\<forall>r. (\<exists>d. run t ps = Fulfilled d r) \<longleftrightarrow> (\<exists>d. run t ps' = Fulfilled d r)))"
proof -
  have lists: "rs = entry_lines (success_list t ps) \<and> es = error_list t ps \<and>
      run t ps = Fulfilled (latest (map (task_time t) ps)) (summarize t rs es)"
    if "merged t ps = Some (rs, es)"
    using that by (simp add: merged_Some run_settles)
  have kept: "success_list t [p] = [] \<and> error_list t [p] = [m]"
    if "task_result t p = Some (failure m)" and "m \<noteq> []"
    using that
    by (simp add: success_list_def error_list_def success_entry_failure error_entry_failure)
  have dropped: "success_list t [p] = [] \<and> error_list t [p] = []"
    if "task_result t p = Some (failure [])"
    using empty_failure_silent [OF that] by (simp add: success_list_def error_list_def)
  have same: "merged t ps = merged t ps' \<and>
      (\<forall>r. (\<exists>d. run t ps = Fulfilled d r) \<longleftrightarrow> (\<exists>d. run t ps' = Fulfilled d r))"
    if "map title ps = map title ps'" and "map (outcome t) ps = map (outcome t) ps'"
  proof (cases "first_error t ps'")
    case None
    with lists_cong [OF that] show ?thesis
      by (simp add: merged_lists run_settles)
  next
    case (Some e)
    with lists_cong [OF that] show ?thesis
      by (simp add: merged_lists run_settles)
  qed
  have appends: "success_list t (xs @ ys) = success_list t xs @ success_list t ys \<and>
      error_list t (xs @ ys) = error_list t xs @ error_list t ys"
    by (simp add: success_list_append error_list_append)
  from lists appends success_titles [of t ps] kept dropped same show ?thesis
    by blast
qed

theorem merge_in_registry_order_witness:
  "merged (translations_En (\<lambda>n. []))
     [\<lparr>name = ''A'', title = ''## A'',
       queryFn = Returns (Fulfilled 5 (Some \<lparr>success = True, output' = Some ''X'', error = None\<rparr>)),
       timeoutMs = 2000\<rparr>,
      \<lparr>name = ''B'', title = ''## B'',
       queryFn = Returns (Fulfilled 9 (Some (failure ''quota API down''))), timeoutMs = 2000\<rparr>,
      \<lparr>name = ''C'', title = ''## C'',
       queryFn = Returns (Rejected 7 (ErrorInst ''Error'' ''boom'')), timeoutMs = 2000\<rparr>]
     = Some ([''## A'', [], ''X''], [''quota API down'', ''[C] boom'']) \<and>
   merged (translations_En (\<lambda>n. []))
     [\<lparr>name = ''A'', title = ''## A'',
       queryFn = Returns (Fulfilled 900 (Some \<lparr>success = True, output' = Some ''X'', error = None\<rparr>)),
       timeoutMs = 2000\<rparr>,
      \<lparr>name = ''B'', title = ''## B'',
       queryFn = Returns (Fulfilled 1 (Some (failure ''quota API down''))), timeoutMs = 2000\<rparr>,
      \<lparr>name = ''C'', title = ''## C'',
       queryFn = Returns (Rejected 3 (ErrorInst ''Error'' ''boom'')), timeoutMs = 2000\<rparr>]
     = Some ([''## A'', [], ''X''], [''quota API down'', ''[C] boom''])"
proof -
  let ?t = "translations_En (\<lambda>n. [])"
  let ?ps = "[\<lparr>name = ''A'', title = ''## A'',
       queryFn = Returns (Fulfilled 5 (Some \<lparr>success = True, output' = Some ''X'', error = None\<rparr>)),
       timeoutMs = 2000\<rparr>,
      \<lparr>name = ''B'', title = ''## B'',
       queryFn = Returns (Fulfilled 9 (Some (failure ''quota API down''))), timeoutMs = 2000\<rparr>,
      \<lparr>name = ''C'', title = ''## C'',
       queryFn = Returns (Rejected 7 (ErrorInst ''Error'' ''boom'')), timeoutMs = 2000\<rparr>]"
  let ?ps' = "[\<lparr>name = ''A'', title = ''## A'',
       queryFn = Returns (Fulfilled 900 (Some \<lparr>success = True, output' = Some ''X'', error = None\<rparr>)),
       timeoutMs = 2000\<rparr>,
      \<lparr>name = ''B'', title = ''## B'',
       queryFn = Returns (Fulfilled 1 (Some (failure ''quota API down''))), timeoutMs = 2000\<rparr>,
      \<lparr>name = ''C'', title = ''## C'',
       queryFn = Returns (Rejected 3 (ErrorInst ''Error'' ''boom'')), timeoutMs = 2000\<rparr>]"
  note order = merge_in_registry_order
    [where t = ?t and xs = "[]" and ys = "[]" and ps = ?ps and ps' = ?ps']
  have first: "merged ?t ?ps = Some ([''## A'', [], ''X''], [''quota API down'', ''[C] boom''])"
    by (simp add: merged_def tasks_def queryWithTimeout_def race_def timer_def set_delay_def
        settled_result_def collectResult_def failure_def tagged_def truthy_def text_of_def)
  have same: "merged ?t ?ps = merged ?t ?ps'"
    using order [THEN conjunct2, THEN conjunct2, THEN conjunct2, THEN conjunct2, THEN conjunct2,
      THEN conjunct2]
    by (simp add: outcome_def settled_task_def settled_result_def task_def queryWithTimeout_def
        race_def timer_def set_delay_def)
  from first same show ?thesis by simp
qed

text \<open>
  Not every failure message is appended: a platform that resolves to a failure with the
  empty message leaves the error list empty, and the report is the message for no accounts.
\<close>

theorem empty_failure_counterexample:
  "merged (translations_En (\<lambda>n. []))
     [\<lparr>name = ''A'', title = ''## A'',
       queryFn = Returns (Fulfilled 5 (Some \<lparr>success = False, output' = None, error = Some ''''\<rparr>)),
       timeoutMs = 2000\<rparr>]
     = Some ([], []) \<and>
   run (translations_En (\<lambda>n. []))
     [\<lparr>name = ''A'', title = ''## A'',
       queryFn = Returns (Fulfilled 5 (Some \<lparr>success = False, output' = None, error = Some ''''\<rparr>)),
       timeoutMs = 2000\<rparr>]
     = Fulfilled 5 (noAccounts (translations_En (\<lambda>n. [])))"
  by (simp add: merged_def run_def tasks_def queryWithTimeout_def race_def timer_def
      set_delay_def settled_result_def collectResult_def summarize_def truthy_def)

section \<open>Layout of the report\<close>

text \<open>
  Claim C4 (as amended). When the success list is not empty, the report is the success
  entries, each a title line, a blank line and the body, joined with a blank line between
  entries; when the error list is not empty as well, a blank line, the header line of the
  failures and then one error message per line follow. This holds in every language of the
  table: the entry \<open>queryFailed\<close> is the header line followed by a line break. An error line
  is the message of the failure as the platform returned it; it carries the name of the
  platform in brackets only when the failure was made from a thrown error. So for the
  registry of a success \<open>X\<close>, an absent platform and a platform \<open>C\<close> that returns the failure
  \<open>boom\<close>, the report is the title of the first platform, a blank line, \<open>X\<close>, a blank line, the
  header and \<open>boom\<close>; it ends with \<open>[C] boom\<close> when \<open>C\<close> throws \<open>boom\<close> instead.
\<close>

theorem report_layout:
  "(merged (translations_for other lang) ps = Some (rs, es) \<and> rs \<noteq> [] \<longrightarrow>
      rs = entry_lines (success_list (translations_for other lang) ps) \<and>
      run (translations_for other lang) ps =
        Fulfilled (latest (map (task_time (translations_for other lang)) ps))
          (report_spec (translations_for other lang)
             (success_list (translations_for other lang) ps) es)) \<and>
   queryFailed (translations_for other lang) =
     failures_header (translations_for other lang) @ ''\<newline>'' \<and>
   CHR ''\<newline>'' \<notin> set (failures_header (translations_for other lang)) \<and>
   (queryFn p = Returns (Fulfilled d (Some (failure m))) \<and> d < set_delay (timeoutMs p) \<and>
    m \<noteq> [] \<longrightarrow>
      error_list (translations_for other lang) [p] = [m]) \<and>
   (queryFn p = Throws (ErrorInst nm m) \<longrightarrow>
      error_list (translations_for other lang) [p] = [tagged (name p) m])"
proof -
  let ?t = "translations_for other lang"
  have layout: "rs = entry_lines (success_list ?t ps) \<and>
      run ?t ps = Fulfilled (latest (map (task_time ?t) ps))
        (report_spec ?t (success_list ?t ps) es)"
    if "merged ?t ps = Some (rs, es)" and "rs \<noteq> []"
  proof -
    from that have "success_list ?t ps \<noteq> []"
      by (auto simp add: merged_Some)
    then have "report_text ?t (success_list ?t ps) es = report_spec ?t (success_list ?t ps) es"
      by (simp add: report_text_def)
    with that(1) show ?thesis
      by (simp add: merged_Some run_settles summarize_report_text header_line)
  qed
  have thrown: "error_list ?t [p] = [tagged (name p) m]" if "queryFn p = Throws (ErrorInst nm m)"
  proof -
    from that have "task ?t p = Fulfilled 0 (Some (failure (tagged (name p) m)))"
      by (simp add: thrown_task)
    then have "task_result ?t p = Some (failure (tagged (name p) m))"
      by (simp add: fulfilled_reportable)
    then show ?thesis
      by (simp add: error_list_def error_entry_failure tagged_nonempty)
  qed
  from layout thrown returned_failure [of p d m ?t] show ?thesis
    by (simp add: header_line header_no_break)
qed

theorem report_layout_witness:
  "run (translations_for (\<lambda>n. []) En)
     [\<lparr>name = ''A'', title = ''## A'',
       queryFn = Returns (Fulfilled 5 (Some \<lparr>success = True, output' = Some ''X'', error = None\<rparr>)),
       timeoutMs = 2000\<rparr>,
      \<lparr>name = ''B'', title = ''## B'', queryFn = Returns (Fulfilled 0 None), timeoutMs = 2000\<rparr>,
      \<lparr>name = ''C'', title = ''## C'',
       queryFn = Returns (Fulfilled 7 (Some (failure ''boom''))), timeoutMs = 2000\<rparr>]
     = Fulfilled 7
         (''## A'' @ ''\<newline>\<newline>'' @ ''X'' @ ''\<newline>\<newline>'' @
          ([CHR 0xE2, CHR 0x9D, CHR 0x8C] @ '' Failed to query accounts:'') @ ''\<newline>'' @
          ''boom'') \<and>
   run (translations_for (\<lambda>n. []) En)
     [\<lparr>name = ''A'', title = ''## A'',
       queryFn = Returns (Fulfilled 5 (Some \<lparr>success = True, output' = Some ''X'', error = None\<rparr>)),
       timeoutMs = 2000\<rparr>,
      \<lparr>name = ''B'', title = ''## B'', queryFn = Returns (Fulfilled 0 None), timeoutMs = 2000\<rparr>,
      \<lparr>name = ''C'', title = ''## C'',
       queryFn = Throws (ErrorInst ''Error'' ''boom''), timeoutMs = 2000\<rparr>]
     = Fulfilled 5
         (''## A'' @ ''\<newline>\<newline>'' @ ''X'' @ ''\<newline>\<newline>'' @
          ([CHR 0xE2, CHR 0x9D, CHR 0x8C] @ '' Failed to query accounts:'') @ ''\<newline>'' @
          ''[C] boom'')"
proof -
  let ?t = "translations_for (\<lambda>n. []) En"
  let ?A = "\<lparr>name = ''A'', title = ''## A'',
       queryFn = Returns (Fulfilled 5 (Some \<lparr>success = True, output' = Some ''X'', error = None\<rparr>)),
       timeoutMs = 2000\<rparr>"
  let ?B = "\<lparr>name = ''B'', title = ''## B'', queryFn = Returns (Fulfilled 0 None),
       timeoutMs = 2000\<rparr>"
  let ?C = "\<lparr>name = ''C'', title = ''## C'',
       queryFn = Returns (Fulfilled 7 (Some (failure ''boom''))), timeoutMs = 2000\<rparr>"
  let ?C' = "\<lparr>name = ''C'', title = ''## C'',
       queryFn = Throws (ErrorInst ''Error'' ''boom''), timeoutMs = 2000\<rparr>"
  have m: "merged ?t [?A, ?B, ?C] = Some ([''## A'', [], ''X''], [''boom''])"
    by (simp add: merged_def tasks_def queryWithTimeout_def race_def timer_def set_delay_def
        settled_result_def collectResult_def failure_def truthy_def text_of_def)
  have m': "merged ?t [?A, ?B, ?C'] = Some ([''## A'', [], ''X''], [''[C] boom''])"
    by (simp add: merged_def tasks_def queryWithTimeout_def race_def timer_def set_delay_def
        settled_result_def collectResult_def failure_def tagged_def truthy_def text_of_def)
  have s: "success_list ?t [?A, ?B, ?C] = [(''## A'', ''X'')]"
    using m by (simp add: merged_Some success_list_def success_entry_def task_result_def
        outcome_def settled_task_def settled_result_def task_def queryWithTimeout_def race_def
        timer_def set_delay_def failure_def truthy_def text_of_def)
  have s': "success_list ?t [?A, ?B, ?C'] = [(''## A'', ''X'')]"
    using m' by (simp add: merged_Some success_list_def success_entry_def task_result_def
        outcome_def settled_task_def settled_result_def task_def queryWithTimeout_def race_def
        timer_def set_delay_def failure_def truthy_def text_of_def)
  have r: "run ?t [?A, ?B, ?C] = Fulfilled 7
         (''## A'' @ ''\<newline>\<newline>'' @ ''X'' @ ''\<newline>\<newline>'' @
          ([CHR 0xE2, CHR 0x9D, CHR 0x8C] @ '' Failed to query accounts:'') @ ''\<newline>'' @
          ''boom'')"
    using report_layout
      [where other = "\<lambda>n. []" and lang = En and ps = "[?A, ?B, ?C]"
         and rs = "[''## A'', [], ''X'']" and es = "[''boom'']", THEN conjunct1] m s
    by (simp add: task_time_def task_def queryWithTimeout_def race_def timer_def set_delay_def
        report_spec_def entry_block_def failures_header_def translations_En_def)
  have r': "run ?t [?A, ?B, ?C'] = Fulfilled 5
         (''## A'' @ ''\<newline>\<newline>'' @ ''X'' @ ''\<newline>\<newline>'' @
          ([CHR 0xE2, CHR 0x9D, CHR 0x8C] @ '' Failed to query accounts:'') @ ''\<newline>'' @
          ''[C] boom'')"
    using report_layout
      [where other = "\<lambda>n. []" and lang = En and ps = "[?A, ?B, ?C']"
         and rs = "[''## A'', [], ''X'']" and es = "[''[C] boom'']", THEN conjunct1] m' s'
    by (simp add: task_time_def task_def queryWithTimeout_def race_def timer_def set_delay_def
        report_spec_def entry_block_def failures_header_def translations_En_def)
  from r r' show ?thesis by simp
qed

text \<open>
  With \<open>C\<close> returning the failure \<open>boom\<close>, the last line of the report is \<open>boom\<close>, not
  \<open>[C] boom\<close>.
\<close>

theorem report_example_counterexample:
  "run (translations_for (\<lambda>n. []) En)
     [\<lparr>name = ''A'', title = ''## A'',
       queryFn = Returns (Fulfilled 5 (Some \<lparr>success = True, output' = Some ''X'', error = None\<rparr>)),
       timeoutMs = 2000\<rparr>,
      \<lparr>name = ''B'', title = ''## B'', queryFn = Returns (Fulfilled 0 None), timeoutMs = 2000\<rparr>,
      \<lparr>name = ''C'', title = ''## C'',
       queryFn = Returns (Fulfilled 7 (Some \<lparr>success = False, output' = None, error = Some ''boom''\<rparr>)),
       timeoutMs = 2000\<rparr>]
     = Fulfilled 7
         (''## A'' @ ''\<newline>\<newline>'' @ ''X'' @ ''\<newline>\<newline>'' @
          ([CHR 0xE2, CHR 0x9D, CHR 0x8C] @ '' Failed to query accounts:'') @ ''\<newline>'' @
          ''boom'') \<and>
   run (translations_for (\<lambda>n. []) En)
     [\<lparr>name = ''A'', title = ''## A'',
       queryFn = Returns (Fulfilled 5 (Some \<lparr>success = True, output' = Some ''X'', error = None\<rparr>)),
       timeoutMs = 2000\<rparr>,
      \<lparr>name = ''B'', title = ''## B'', queryFn = Returns (Fulfilled 0 None), timeoutMs = 2000\<rparr>,
      \<lparr>name = ''C'', title = ''## C'',
       queryFn = Returns (Fulfilled 7 (Some \<lparr>success = False, output' = None, error = Some ''boom''\<rparr>)),
       timeoutMs = 2000\<rparr>]
     \<noteq> Fulfilled 7
         (''## A'' @ ''\<newline>\<newline>'' @ ''X'' @ ''\<newline>\<newline>'' @
          ([CHR 0xE2, CHR 0x9D, CHR 0x8C] @ '' Failed to query accounts:'') @ ''\<newline>'' @
          ''[C] boom'')"
  by (simp add: run_def tasks_def queryWithTimeout_def race_def timer_def set_delay_def
      settled_result_def collectResult_def summarize_def truthy_def text_of_def
      translations_En_def)

section \<open>Nothing to report\<close>

text \<open>
  Claim C6. When both arrays are empty after the merge, the report is exactly the entry
  \<open>noAccounts\<close> of the translation table. This is the case for the empty registry and for a
  registry all of whose platforms signal absence.
\<close>

theorem nothing_configured:
  "(merged t ps = Some ([], []) \<longrightarrow>
      run t ps = Fulfilled (latest (map (task_time t) ps)) (noAccounts t)) \<and>
   run t [] = Fulfilled 0 (noAccounts t) \<and>
   ((\<forall>p \<in> set ps. resolves_absent p) \<longrightarrow>
      run t ps = Fulfilled (latest (map (task_time t) ps)) (noAccounts t))"
proof -
  have empty: "run t ps = Fulfilled (latest (map (task_time t) ps)) (noAccounts t)"
    if "merged t ps = Some ([], [])"
  proof -
    from that have "first_error t ps = None" "entry_lines (success_list t ps) = []"
      "error_list t ps = []"
      by (simp_all add: merged_Some)
    then show ?thesis by (simp add: run_settles summarize_empty)
  qed
  have none: "run t [] = Fulfilled 0 (noAccounts t)"
    by (simp add: run_def tasks_def summarize_empty)
  have absent: "run t ps = Fulfilled (latest (map (task_time t) ps)) (noAccounts t)"
    if "\<forall>p \<in> set ps. resolves_absent p"
  proof -
    from that have "success_list t ps = [] \<and> error_list t ps = []"
      by (intro all_silent) (simp add: absent_task_result)
    moreover from that have "\<forall>p \<in> set ps. reportable t p"
      by (simp add: absent_task_result)
    ultimately show ?thesis by (simp add: all_reportable_run summarize_empty)
  qed
  from empty none absent show ?thesis by blast
qed

theorem nothing_configured_witness:
  "run (translations_for (\<lambda>n. []) En)
     [\<lparr>name = ''A'', title = ''## A'', queryFn = Returns (Fulfilled 3 None), timeoutMs = 2000\<rparr>,
      \<lparr>name = ''B'', title = ''## B'', queryFn = Returns (Fulfilled 0 None), timeoutMs = 2000\<rparr>]
     = Fulfilled 3
         (''No configured accounts found.\<newline>\<newline>Supported account types:\<newline>'' @
          ''- OpenAI (Plus/Team/Pro subscribers)\<newline>- Zhipu AI (Coding Plan)\<newline>'' @
          ''- Z.ai (Coding Plan)\<newline>- Google Cloud (Antigravity)'') \<and>
   merged (translations_for (\<lambda>n. []) En)
     [\<lparr>name = ''A'', title = ''## A'', queryFn = Returns (Fulfilled 3 None), timeoutMs = 2000\<rparr>,
      \<lparr>name = ''B'', title = ''## B'', queryFn = Returns (Fulfilled 0 None), timeoutMs = 2000\<rparr>]
     = Some ([], [])"
proof -
  let ?t = "translations_for (\<lambda>n. []) En"
  let ?ps = "[\<lparr>name = ''A'', title = ''## A'', queryFn = Returns (Fulfilled 3 None),
                timeoutMs = 2000\<rparr>,
              \<lparr>name = ''B'', title = ''## B'', queryFn = Returns (Fulfilled 0 None),
                timeoutMs = 2000\<rparr>]"
  have m: "merged ?t ?ps = Some ([], [])"
    by (simp add: merged_def tasks_def queryWithTimeout_def race_def timer_def set_delay_def
        settled_result_def collectResult_def)
  have "run ?t ?ps = Fulfilled 3
         (''No configured accounts found.\<newline>\<newline>Supported account types:\<newline>'' @
          ''- OpenAI (Plus/Team/Pro subscribers)\<newline>- Zhipu AI (Coding Plan)\<newline>'' @
          ''- Z.ai (Coding Plan)\<newline>- Google Cloud (Antigravity)'')"
    using nothing_configured [where t = ?t and ps = ?ps, THEN conjunct1] m
    by (simp add: task_time_def task_def queryWithTimeout_def race_def
        timer_def set_delay_def translations_En_def)
  with m show ?thesis by simp
qed

section \<open>Absence is not an error\<close>

text \<open>
  Claim C7. A platform whose query operation signals absence (its promise is fulfilled with
  \<open>null\<close> before the timer fires) leaves no trace: the two arrays and the report are those of
  the registry without it, so it is neither in the success list nor in the error list. The
  Copilot query operation signals absence at once when its credentials are missing, are not
  of type \<open>oauth\<close>, or have no refresh token.
\<close>

theorem absent_is_silent:
  "(resolves_absent p \<longrightarrow>
      merged t (xs @ p # ys) = merged t (xs @ ys) \<and>
      (\<forall>r. (\<exists>d. run t (xs @ p # ys) = Fulfilled d r) \<longleftrightarrow>
           (\<exists>d. run t (xs @ ys) = Fulfilled d r))) \<and>
   (resolves_absent p \<and> (\<forall>q \<in> set (xs @ ys). reportable t q) \<longrightarrow>
      (\<exists>d d' r. run t (xs @ p # ys) = Fulfilled d r \<and> run t (xs @ ys) = Fulfilled d' r)) \<and>
   (queryFn p = Returns (queryCopilotUsage t fw fmt a) \<and>
    (a = None \<or>
     (\<exists>c. a = Some c \<and> (type' c \<noteq> ''oauth'' \<or> refresh c = None \<or> refresh c = Some []))) \<longrightarrow>
      resolves_absent p)"
proof -
  have silent: "reportable t p \<and> success_entry t p = None \<and> error_entry t p = None"
    if "resolves_absent p"
    using that by (simp add: absent_task_result silent_entries)
  have dropped: "merged t (xs @ p # ys) = merged t (xs @ ys) \<and>
      (\<forall>r. (\<exists>d. run t (xs @ p # ys) = Fulfilled d r) \<longleftrightarrow>
           (\<exists>d. run t (xs @ ys) = Fulfilled d r))"
    if "resolves_absent p"
    using silent [OF that] by (simp add: silent_dropped)
  have both: "\<exists>d d' r. run t (xs @ p # ys) = Fulfilled d r \<and> run t (xs @ ys) = Fulfilled d' r"
    if "resolves_absent p" and "\<forall>q \<in> set (xs @ ys). reportable t q"
  proof -
    from that(2) obtain d' r where "run t (xs @ ys) = Fulfilled d' r"
      by (auto simp add: all_reportable_run)
    with dropped [OF that(1)] show ?thesis by blast
  qed
  have copilot: "resolves_absent p"
    if "queryFn p = Returns (queryCopilotUsage t fw fmt a)"
      and "a = None \<or>
        (\<exists>c. a = Some c \<and> (type' c \<noteq> ''oauth'' \<or> refresh c = None \<or> refresh c = Some []))"
    using that(1) copilot_absent [OF that(2), of t fw fmt]
    by (simp add: resolves_absent_def set_delay_pos)
  from dropped both copilot show ?thesis by blast
qed

theorem absent_is_silent_witness:
  "merged (translations_for (\<lambda>n. []) En)
     [\<lparr>name = ''A'', title = ''## A'',
       queryFn = Returns (Fulfilled 5 (Some \<lparr>success = True, output' = Some ''X'', error = None\<rparr>)),
       timeoutMs = 2000\<rparr>,
      \<lparr>name = ''Copilot'', title = ''## GitHub Copilot Account Quota'',
       queryFn = Returns (queryCopilotUsage (translations_for (\<lambda>n. []) En)
                   (\<lambda>url headers. Pending :: unit Response promise)
                   (\<lambda>u. Returns ''usage'')
                   (Some \<lparr>type' = ''api'', refresh = Some ''token''\<rparr>)),
       timeoutMs = 10000\<rparr>,
      \<lparr>name = ''C'', title = ''## C'',
       queryFn = Throws (ErrorInst ''Error'' ''boom''), timeoutMs = 2000\<rparr>]
     = Some ([''## A'', [], ''X''], [''[C] boom'']) \<and>
   merged (translations_for (\<lambda>n. []) En)
     [\<lparr>name = ''A'', title = ''## A'',
       queryFn = Returns (Fulfilled 5 (Some \<lparr>success = True, output' = Some ''X'', error = None\<rparr>)),
       timeoutMs = 2000\<rparr>,
      \<lparr>name = ''C'', title = ''## C'',
       queryFn = Throws (ErrorInst ''Error'' ''boom''), timeoutMs = 2000\<rparr>]
     = Some ([''## A'', [], ''X''], [''[C] boom''])"
proof -
  let ?t = "translations_for (\<lambda>n. []) En"
  let ?A = "\<lparr>name = ''A'', title = ''## A'',
       queryFn = Returns (Fulfilled 5 (Some \<lparr>success = True, output' = Some ''X'', error = None\<rparr>)),
       timeoutMs = 2000\<rparr>"
  let ?P = "\<lparr>name = ''Copilot'', title = ''## GitHub Copilot Account Quota'',
       queryFn = Returns (queryCopilotUsage (translations_for (\<lambda>n. []) En)
                   (\<lambda>url headers. Pending :: unit Response promise)
                   (\<lambda>u. Returns ''usage'')
                   (Some \<lparr>type' = ''api'', refresh = Some ''token''\<rparr>)),
       timeoutMs = 10000\<rparr>"
  let ?C = "\<lparr>name = ''C'', title = ''## C'',
       queryFn = Throws (ErrorInst ''Error'' ''boom''), timeoutMs = 2000\<rparr>"
  note silent = absent_is_silent
    [where t = ?t and p = ?P and xs = "[?A]" and ys = "[?C]"
       and fw = "\<lambda>url headers. Pending :: unit Response promise"
       and fmt = "\<lambda>u. Returns ''usage''"
       and a = "Some \<lparr>type' = ''api'', refresh = Some ''token''\<rparr>"]
  have "resolves_absent ?P"
    using silent [THEN conjunct2, THEN conjunct2] by simp
  with silent [THEN conjunct1] have same: "merged ?t [?A, ?P, ?C] = merged ?t [?A, ?C]"
    by simp
  have "merged ?t [?A, ?C] = Some ([''## A'', [], ''X''], [''[C] boom''])"
    by (simp add: merged_def tasks_def queryWithTimeout_def race_def timer_def set_delay_def
        settled_result_def collectResult_def failure_def tagged_def truthy_def text_of_def)
  with same show ?thesis by simp
qed

section \<open>Empty bodies\<close>

text \<open>
  Claim C5 (as amended). A platform whose query operation resolves in time to a success with
  an empty body (the empty string, or no body at all) and no error text is treated like an
  absent one: the two arrays and the report are those of the registry without it. The test
  is the truthiness of the body, so every body that is not the empty string, a body of
  blanks included, gives a success entry.
\<close>

theorem empty_body_dropped:
  "(queryFn p = Returns (Fulfilled d (Some r)) \<and> d < set_delay (timeoutMs p) \<and> success r \<and>
    (output' r = None \<or> output' r = Some []) \<and> (error r = None \<or> error r = Some []) \<longrightarrow>
      merged t (xs @ p # ys) = merged t (xs @ ys) \<and>
      (\<forall>r'. (\<exists>d. run t (xs @ p # ys) = Fulfilled d r') \<longleftrightarrow>
            (\<exists>d. run t (xs @ ys) = Fulfilled d r'))) \<and>
   (queryFn p = Returns (Fulfilled d (Some r)) \<and> d < set_delay (timeoutMs p) \<and> success r \<and>
    (output' r = None \<or> output' r = Some []) \<and> (error r = None \<or> error r = Some []) \<and>
    (\<forall>q \<in> set (xs @ ys). reportable t q) \<longrightarrow>
      (\<exists>d d' r'. run t (xs @ p # ys) = Fulfilled d r' \<and> run t (xs @ ys) = Fulfilled d' r')) \<and>
   (queryFn p = Returns (Fulfilled d (Some r)) \<and> d < set_delay (timeoutMs p) \<and> success r \<and>
    output' r = Some body \<and> body \<noteq> [] \<longrightarrow>
      success_entry t p = Some (title p, body) \<and> error_entry t p = None)"
proof -
  have dropped: "merged t (xs @ p # ys) = merged t (xs @ ys) \<and>
      (\<forall>r'. (\<exists>d. run t (xs @ p # ys) = Fulfilled d r') \<longleftrightarrow>
            (\<exists>d. run t (xs @ ys) = Fulfilled d r'))"
    if "queryFn p = Returns (Fulfilled d (Some r))" and "d < set_delay (timeoutMs p)"
      and "success r"
      and "output' r = None \<or> output' r = Some []" and "error r = None \<or> error r = Some []"
  proof -
    from that(1,2) have res: "reportable t p \<and> task_result t p = Some r"
      by (rule fulfilled_task_result)
    with that(3-5) have "success_entry t p = None" "error_entry t p = None"
      by (auto simp add: success_entry_def error_entry_def truthy_def)
    with res show ?thesis by (simp add: silent_dropped)
  qed
  have both: "\<exists>d d' r'. run t (xs @ p # ys) = Fulfilled d r' \<and> run t (xs @ ys) = Fulfilled d' r'"
    if "queryFn p = Returns (Fulfilled d (Some r))" and "d < set_delay (timeoutMs p)"
      and "success r"
      and "output' r = None \<or> output' r = Some []" and "error r = None \<or> error r = Some []"
      and "\<forall>q \<in> set (xs @ ys). reportable t q"
  proof -
    from that(6) obtain d' r' where "run t (xs @ ys) = Fulfilled d' r'"
      by (auto simp add: all_reportable_run)
    with dropped [OF that(1-5)] show ?thesis by blast
  qed
  have kept: "success_entry t p = Some (title p, body) \<and> error_entry t p = None"
    if "queryFn p = Returns (Fulfilled d (Some r))" and "d < set_delay (timeoutMs p)"
      and "success r" and "output' r = Some body" and "body \<noteq> []"
  proof -
    from that(1,2) have "reportable t p \<and> task_result t p = Some r"
      by (rule fulfilled_task_result)
    with that(3-5) show ?thesis
      by (simp add: success_entry_def error_entry_def truthy_def text_of_def)
  qed
  from dropped both kept show ?thesis by blast
qed

theorem empty_body_dropped_witness:
  "merged (translations_for (\<lambda>n. []) En)
     [\<lparr>name = ''A'', title = ''## A'',
       queryFn = Returns (Fulfilled 5 (Some \<lparr>success = True, output' = Some '''', error = None\<rparr>)),
       timeoutMs = 2000\<rparr>,
      \<lparr>name = ''C'', title = ''## C'',
       queryFn = Throws (ErrorInst ''Error'' ''boom''), timeoutMs = 2000\<rparr>]
     = Some ([], [''[C] boom'']) \<and>
   merged (translations_for (\<lambda>n. []) En)
     [\<lparr>name = ''C'', title = ''## C'',
       queryFn = Throws (ErrorInst ''Error'' ''boom''), timeoutMs = 2000\<rparr>]
     = Some ([], [''[C] boom''])"
proof -
  let ?t = "translations_for (\<lambda>n. []) En"
  let ?r = "\<lparr>success = True, output' = Some '''', error = None\<rparr>"
  let ?A = "\<lparr>name = ''A'', title = ''## A'',
       queryFn = Returns (Fulfilled 5 (Some ?r)), timeoutMs = 2000\<rparr>"
  let ?C = "\<lparr>name = ''C'', title = ''## C'',
       queryFn = Throws (ErrorInst ''Error'' ''boom''), timeoutMs = 2000\<rparr>"
  have same: "merged ?t [?A, ?C] = merged ?t [?C]"
    using empty_body_dropped
      [where t = ?t and p = ?A and xs = "[]" and ys = "[?C]" and d = 5 and r = ?r,
       THEN conjunct1]
    by (simp add: set_delay_def)
  have "merged ?t [?C] = Some ([], [''[C] boom''])"
    by (simp add: merged_def tasks_def queryWithTimeout_def race_def timer_def set_delay_def
        settled_result_def collectResult_def failure_def tagged_def truthy_def text_of_def)
  with same show ?thesis by simp
qed

text \<open>
  A body of two blanks is not dropped: the platform gets a success entry and the report shows
  its title over the blank body.
\<close>

theorem blank_body_counterexample:
  "merged (translations_for (\<lambda>n. []) En)
     [\<lparr>name = ''A'', title = ''## A'',
       queryFn = Returns (Fulfilled 5 (Some \<lparr>success = True, output' = Some ''  '', error = None\<rparr>)),
       timeoutMs = 2000\<rparr>]
     = Some ([''## A'', [], ''  ''], []) \<and>
   run (translations_for (\<lambda>n. []) En)
     [\<lparr>name = ''A'', title = ''## A'',
       queryFn = Returns (Fulfilled 5 (Some \<lparr>success = True, output' = Some ''  '', error = None\<rparr>)),
       timeoutMs = 2000\<rparr>]
     = Fulfilled 5 (''## A'' @ ''\<newline>\<newline>'' @ ''  '')"
  by (simp add: merged_def run_def tasks_def settled_result_def collectResult_def summarize_def
      queryWithTimeout_def race_def timer_def set_delay_def truthy_def text_of_def)

section \<open>Isolation of the tasks\<close>


section \<open>The Copilot query operation\<close>



end
